theory Spec2Isabelle
  imports Complex_Main
begin

section \<open>JavaScript strings\<close>

text \<open>
  Strings are modelled as \<^typ>\<open>string\<close> (lists of 8-bit characters); the catalog
  identifiers and type names the program handles are ASCII. The helpers below are the
  \<^verbatim>\<open>String.prototype\<close> methods that \<^verbatim>\<open>mapPgTypeToZod\<close> calls.
\<close>

definition startsWith :: "string \<Rightarrow> string \<Rightarrow> bool" where
  "startsWith s p = (take (length p) s = p)"

definition endsWith :: "string \<Rightarrow> string \<Rightarrow> bool" where
  "endsWith s p = (length p \<le> length s \<and> drop (length s - length p) s = p)"

text \<open>\<^verbatim>\<open>s.substring(1)\<close>: everything after the first character.\<close>

definition substring1 :: "string \<Rightarrow> string" where
  "substring1 s = drop 1 s"

text \<open>\<^verbatim>\<open>s.slice(0, -2)\<close>: everything but the last two characters (empty when there
  are fewer than two).\<close>

definition slice0m2 :: "string \<Rightarrow> string" where
  "slice0m2 s = take (length s - 2) s"

definition upperLetters :: string where
  "upperLetters = ''ABCDEFGHIJKLMNOPQRSTUVWXYZ''"

definition lowerLetters :: string where
  "lowerLetters = ''abcdefghijklmnopqrstuvwxyz''"

text \<open>The character that stands in \<open>to\<close> where \<open>c\<close> stands in \<open>from\<close>; \<open>c\<close> itself when
  it does not occur there.\<close>

fun translate :: "string \<Rightarrow> string \<Rightarrow> char \<Rightarrow> char" where
  "translate (a # as) (b # bs) c = (if c = a then b else translate as bs c)"
| "translate _ _ c = c"

definition lower_char :: "char \<Rightarrow> char" where
  "lower_char c = translate upperLetters lowerLetters c"

definition upper_char :: "char \<Rightarrow> char" where
  "upper_char c = translate lowerLetters upperLetters c"

definition toLowerCase :: "string \<Rightarrow> string" where
  "toLowerCase s = map lower_char s"

text \<open>\<^verbatim>\<open>s.replace(/ /g, "")\<close>: every space removed.\<close>

definition removeSpaces :: "string \<Rightarrow> string" where
  "removeSpaces s = filter (\<lambda>c. c \<noteq> CHR '' '') s"

section \<open>Diagnostics\<close>

text \<open>
  The program reports through \<^verbatim>\<open>console.warn\<close> and \<^verbatim>\<open>console.error\<close>. Each
  function of the model returns the diagnostics it emits, in order, next to its value:
  the level and the text of the first argument of the call. The purely informational
  \<^verbatim>\<open>console.log\<close> lines are not part of the model.
\<close>

datatype level = WARN | ERROR

type_synonym diagnostics = "(level \<times> string) list"

section \<open>Type Mapper\<close>

text \<open>The Zod schemas that the program builds.\<close>

datatype zod =
    ZString                 \<comment> \<open>\<^verbatim>\<open>z.string()\<close>\<close>
  | ZNumberInt              \<comment> \<open>\<^verbatim>\<open>z.number().int()\<close>\<close>
  | ZBigint                 \<comment> \<open>\<^verbatim>\<open>z.bigint()\<close>\<close>
  | ZStringRegex string     \<comment> \<open>\<^verbatim>\<open>z.string().regex(/.../)\<close>, the source text of the regex\<close>
  | ZNumber                 \<comment> \<open>\<^verbatim>\<open>z.number()\<close>\<close>
  | ZBoolean                \<comment> \<open>\<^verbatim>\<open>z.boolean()\<close>\<close>
  | ZStringUuid             \<comment> \<open>\<^verbatim>\<open>z.string().uuid()\<close>\<close>
  | ZStringDate             \<comment> \<open>\<^verbatim>\<open>z.string().date(...)\<close>\<close>
  | ZStringDatetime         \<comment> \<open>\<^verbatim>\<open>z.string().datetime(...)\<close>\<close>
  | ZAny                    \<comment> \<open>\<^verbatim>\<open>z.any()\<close>\<close>
  | ZArray zod              \<comment> \<open>\<^verbatim>\<open>z.array(t)\<close>\<close>
  | ZNullable zod           \<comment> \<open>\<^verbatim>\<open>t.nullable()\<close>\<close>
  | ZDescribe zod string    \<comment> \<open>\<^verbatim>\<open>t.describe(text)\<close>\<close>

definition numericRegex :: string where
  "numericRegex = ''^-?'' @ [CHR 0x5C] @ ''d+('' @ [CHR 0x5C] @ ''.'' @ [CHR 0x5C] @ ''d+)?$''"

text \<open>
  The \<^verbatim>\<open>switch\<close> of \<^verbatim>\<open>mapPgTypeToZod\<close> over the normalized element type, one
  line per group of \<^verbatim>\<open>case\<close> labels, in the order of the source. \<open>None\<close> is the
  \<^verbatim>\<open>default\<close> branch.
\<close>

definition switchElementType :: "string \<Rightarrow> zod option" where
  "switchElementType t =
     (if t \<in> set [''text'', ''varchar'', ''char'', ''name'', ''bpchar''] then Some ZString
      else if t \<in> set [''int'', ''integer'', ''int4'', ''smallint'', ''serial'', ''smallserial'']
        then Some ZNumberInt
      else if t \<in> set [''bigint'', ''bigserial'', ''int8''] then Some ZBigint
      else if t \<in> set [''numeric'', ''decimal''] then Some (ZStringRegex numericRegex)
      else if t \<in> set [''real'', ''float4'', ''doubleprecision'', ''float8''] then Some ZNumber
      else if t \<in> set [''boolean'', ''bool''] then Some ZBoolean
      else if t = ''uuid'' then Some ZStringUuid
      else if t = ''date'' then Some ZStringDate
      else if t \<in> set [''timestamp'', ''timestamptz''] then Some ZStringDatetime
      else if t \<in> set [''json'', ''jsonb''] then Some ZAny
      else if t = ''bytea'' then Some ZString
      else None)"

definition unknownTypeWarning :: "string \<Rightarrow> string" where
  "unknownTypeWarning elementType =
     ''Unknown PostgreSQL element type '' @ [CHR 0x22] @ elementType @ [CHR 0x22]
       @ '', mapping to z.any().''"

definition mapPgTypeToZod :: "string \<Rightarrow> bool \<Rightarrow> zod \<times> diagnostics" where
  "mapPgTypeToZod pgType isNullable =
     (let isArray = (startsWith pgType ''_'' \<or> endsWith pgType ''[]'');
          elementType =
            (if isArray
             then (if startsWith pgType ''_'' then substring1 pgType else slice0m2 pgType)
             else pgType);
          normalizedElementType = removeSpaces (toLowerCase elementType);
          (baseType, warnings) =
            (case switchElementType normalizedElementType of
               Some t \<Rightarrow> (t, [])
             | None \<Rightarrow> (ZAny, [(WARN, unknownTypeWarning elementType)]));
          finalType = (if isArray then ZArray baseType else baseType)
      in (if isNullable then ZNullable finalType else finalType, warnings))"

section \<open>JavaScript values\<close>

text \<open>
  Values that cross the database client: \<^verbatim>\<open>undefined\<close>, \<^verbatim>\<open>null\<close>, booleans,
  numbers, bigints, strings, arrays and plain objects. An object is the list of its own
  enumerable properties in enumeration order; a property is read through the first entry
  for its key. A number is the rational it denotes (every finite double is one).
\<close>

datatype jsval =
    JUndefined
  | JNull
  | JBool bool
  | JNum rat
  | JBigInt int
  | JStr string
  | JArr "jsval list"
  | JObj "(string \<times> jsval) list"

text \<open>What a \<^verbatim>\<open>throw\<close> carries: an \<^verbatim>\<open>Error\<close> instance with its message, or any
  other value.\<close>

datatype js_throw = JsError string | JsThrown jsval

definition getProp :: "(string \<times> jsval) list \<Rightarrow> string \<Rightarrow> jsval" where
  "getProp kvs k = (case map_of kvs k of Some v \<Rightarrow> v | None \<Rightarrow> JUndefined)"

definition truthy :: "jsval \<Rightarrow> bool" where
  "truthy v =
     (case v of
        JUndefined \<Rightarrow> False
      | JNull \<Rightarrow> False
      | JBool b \<Rightarrow> b
      | JNum r \<Rightarrow> r \<noteq> 0
      | JBigInt i \<Rightarrow> i \<noteq> 0
      | JStr s \<Rightarrow> s \<noteq> []
      | JArr _ \<Rightarrow> True
      | JObj _ \<Rightarrow> True)"

text \<open>\<^verbatim>\<open>typeof v === "object"\<close>.\<close>

definition typeofObject :: "jsval \<Rightarrow> bool" where
  "typeofObject v = (case v of JNull \<Rightarrow> True | JArr _ \<Rightarrow> True | JObj _ \<Rightarrow> True | _ \<Rightarrow> False)"

text \<open>
  \<^verbatim>\<open>obj[k] = v\<close> on an object created by the literal \<^verbatim>\<open>{}\<close>: an own property is
  written, except for the key \<^verbatim>\<open>__proto__\<close>, whose assignment goes to the inherited
  setter and never creates an own property.
\<close>

definition assignProperty :: "(string \<rightharpoonup> 'v) \<Rightarrow> string \<Rightarrow> 'v \<Rightarrow> (string \<rightharpoonup> 'v)" where
  "assignProperty obj k v = (if k = ''__proto__'' then obj else obj(k \<mapsto> v))"

section \<open>Decimal rendering of a bigint\<close>

definition digit_char :: "nat \<Rightarrow> char" where
  "digit_char n = ''0123456789'' ! n"

fun digits :: "nat \<Rightarrow> string" where
  "digits n = (if n < 10 then [digit_char n] else digits (n div 10) @ [digit_char (n mod 10)])"

declare digits.simps [simp del]

text \<open>\<^verbatim>\<open>value.toString()\<close> of a bigint.\<close>

definition bigint_toString :: "int \<Rightarrow> string" where
  "bigint_toString i = (if i < 0 then CHR ''-'' # digits (nat (- i)) else digits (nat i))"

text \<open>
  The reading of a decimal numeral, by which the exactness of the rendering is stated:
  an optional minus sign, then the digits, most significant first.
\<close>

definition digit_value :: "char \<Rightarrow> nat" where
  "digit_value c = of_char c - 48"

definition decimal_nat :: "string \<Rightarrow> nat" where
  "decimal_nat ds = foldl (\<lambda>a c. 10 * a + digit_value c) 0 ds"

definition decimal_value :: "string \<Rightarrow> int" where
  "decimal_value s =
     (case s of
        [] \<Rightarrow> 0
      | c # cs \<Rightarrow> if c = CHR ''-'' then - int (decimal_nat cs) else int (decimal_nat s))"

section \<open>Zod validation of the catalog responses\<close>

datatype object_type = VIEW | FUNCTION

definition object_type_text :: "object_type \<Rightarrow> string" where
  "object_type_text t = (case t of VIEW \<Rightarrow> ''VIEW'' | FUNCTION \<Rightarrow> ''FUNCTION'')"

text \<open>The parsed shapes. A field declared \<^verbatim>\<open>.nullable()\<close> or \<^verbatim>\<open>.optional()\<close> is an
  option: \<open>None\<close> is \<^verbatim>\<open>null\<close>, respectively an absent key.\<close>

record RawSchemaObject =
  object_name :: string
  object_type :: object_type
  comment :: "string option"

record columnDetail =
  column_name :: string
  col_data_type :: string
  is_nullable :: bool
  col_comment :: "string option"

record parameterDetail =
  parameter_name :: string
  data_type :: string
  position :: int

record RawObjectDetails = RawSchemaObject +
  raw_columns :: "columnDetail list option"
  raw_parameters :: "parameterDetail list option"
  return_type :: "string option"
  returns_set :: "bool option"

text \<open>\<^verbatim>\<open>safeParse\<close> of each schema: \<open>None\<close> is a failed parse.\<close>

definition z_string :: "jsval \<Rightarrow> string option" where
  "z_string v = (case v of JStr s \<Rightarrow> Some s | _ \<Rightarrow> None)"

definition z_boolean :: "jsval \<Rightarrow> bool option" where
  "z_boolean v = (case v of JBool b \<Rightarrow> Some b | _ \<Rightarrow> None)"

definition z_number_int :: "jsval \<Rightarrow> int option" where
  "z_number_int v =
     (case v of JNum r \<Rightarrow> if of_int \<lfloor>r\<rfloor> = r then Some \<lfloor>r\<rfloor> else None | _ \<Rightarrow> None)"

definition z_object_type :: "jsval \<Rightarrow> object_type option" where
  "z_object_type v =
     (case v of
        JStr s \<Rightarrow> if s = ''VIEW'' then Some VIEW
                  else if s = ''FUNCTION'' then Some FUNCTION else None
      | _ \<Rightarrow> None)"

definition z_nullable :: "(jsval \<Rightarrow> 'a option) \<Rightarrow> jsval \<Rightarrow> 'a option option" where
  "z_nullable p v = (case v of JNull \<Rightarrow> Some None | _ \<Rightarrow> map_option Some (p v))"

definition z_optional :: "(jsval \<Rightarrow> 'a option) \<Rightarrow> jsval \<Rightarrow> 'a option option" where
  "z_optional p v = (case v of JUndefined \<Rightarrow> Some None | _ \<Rightarrow> map_option Some (p v))"

definition z_array :: "(jsval \<Rightarrow> 'a option) \<Rightarrow> jsval \<Rightarrow> 'a list option" where
  "z_array p v = (case v of JArr xs \<Rightarrow> those (map p xs) | _ \<Rightarrow> None)"

definition schemaObjectSchema :: "jsval \<Rightarrow> RawSchemaObject option" where
  "schemaObjectSchema v =
     (case v of
        JObj kvs \<Rightarrow>
          (case (z_string (getProp kvs ''object_name''),
                 z_object_type (getProp kvs ''object_type''),
                 z_nullable z_string (getProp kvs ''comment'')) of
             (Some n, Some t, Some c) \<Rightarrow>
               Some \<lparr>object_name = n, object_type = t, comment = c\<rparr>
           | _ \<Rightarrow> None)
      | _ \<Rightarrow> None)"

definition columnDetailSchema :: "jsval \<Rightarrow> columnDetail option" where
  "columnDetailSchema v =
     (case v of
        JObj kvs \<Rightarrow>
          (case (z_string (getProp kvs ''column_name''),
                 z_string (getProp kvs ''data_type''),
                 z_boolean (getProp kvs ''is_nullable''),
                 z_nullable z_string (getProp kvs ''comment'')) of
             (Some n, Some t, Some b, Some c) \<Rightarrow>
               Some \<lparr>column_name = n, col_data_type = t, is_nullable = b, col_comment = c\<rparr>
           | _ \<Rightarrow> None)
      | _ \<Rightarrow> None)"

definition parameterDetailSchema :: "jsval \<Rightarrow> parameterDetail option" where
  "parameterDetailSchema v =
     (case v of
        JObj kvs \<Rightarrow>
          (case (z_string (getProp kvs ''parameter_name''),
                 z_string (getProp kvs ''data_type''),
                 z_number_int (getProp kvs ''position'')) of
             (Some n, Some t, Some i) \<Rightarrow>
               Some \<lparr>parameter_name = n, data_type = t, position = i\<rparr>
           | _ \<Rightarrow> None)
      | _ \<Rightarrow> None)"

definition objectDetailsSchema :: "jsval \<Rightarrow> RawObjectDetails option" where
  "objectDetailsSchema v =
     (case v of
        JObj kvs \<Rightarrow>
          (case (z_string (getProp kvs ''object_name''),
                 z_object_type (getProp kvs ''object_type''),
                 z_nullable z_string (getProp kvs ''comment''),
                 z_optional (z_array columnDetailSchema) (getProp kvs ''columns''),
                 z_optional (z_array parameterDetailSchema) (getProp kvs ''parameters''),
                 z_optional z_string (getProp kvs ''return_type''),
                 z_optional z_boolean (getProp kvs ''returns_set'')) of
             (Some n, Some t, Some c, Some cols, Some ps, Some rt, Some rs) \<Rightarrow>
               Some \<lparr>object_name = n, object_type = t, comment = c, raw_columns = cols,
                     raw_parameters = ps, return_type = rt, returns_set = rs\<rparr>
           | _ \<Rightarrow> None)
      | _ \<Rightarrow> None)"

section \<open>Database client wrapper\<close>

text \<open>
  What awaiting a call of the underlying database client gives: the promise rejects, or
  it resolves to a pair of \<^verbatim>\<open>data\<close> and \<^verbatim>\<open>error\<close>, where \<^verbatim>\<open>error\<close> is \<^verbatim>\<open>null\<close>
  or an object with a message. The answers of the database are a function of the
  request: the catalog does not change while one pass runs.
\<close>

datatype client_result = Rejected js_throw | Response jsval "string option"

record SupabaseClientWrapper =
  schema :: string
  client_rpc :: "string \<Rightarrow> (string \<rightharpoonup> jsval) \<Rightarrow> client_result"
  client_select :: "string \<Rightarrow> client_result"

definition callRpc ::
  "SupabaseClientWrapper \<Rightarrow> string \<Rightarrow> (string \<rightharpoonup> jsval) \<Rightarrow> diagnostics \<times> (js_throw + jsval)"
where
  "callRpc supabase functionName params =
     (case client_rpc supabase functionName params of
        Rejected e \<Rightarrow> ([], Inl e)
      | Response d (Some message) \<Rightarrow>
          ([(ERROR, ''RPC call to '' @ schema supabase @ ''.'' @ functionName @ '' failed:'')],
           Inl (JsError (''Supabase RPC call failed for '' @ functionName @ '': '' @ message)))
      | Response d None \<Rightarrow> ([], Inr d))"

definition selectFromView ::
  "SupabaseClientWrapper \<Rightarrow> string \<Rightarrow> diagnostics \<times> (js_throw + jsval)"
where
  "selectFromView supabase viewName =
     (case client_select supabase viewName of
        Rejected e \<Rightarrow> ([], Inl e)
      | Response d (Some message) \<Rightarrow>
          ([(ERROR, ''Select from view '' @ schema supabase @ ''.'' @ viewName @ '' failed:'')],
           Inl (JsError (''Supabase select failed for view '' @ viewName @ '' in schema ''
                          @ schema supabase @ '': '' @ message)))
      | Response d None \<Rightarrow> ([], Inr (if d = JNull \<or> d = JUndefined then JArr [] else d)))"

section \<open>Name normalization\<close>

text \<open>
  Modelled from the spec: \<^verbatim>\<open>camelCase\<close> is imported from the package
  \<^verbatim>\<open>change-case\<close>, whose code is not part of the repository. The definition follows
  the name derivation rule of the specification: split the catalog identifier on
  underscores, lower-case the first segment, capitalize the first letter of each
  subsequent segment, concatenate.
\<close>

fun splitOn :: "char \<Rightarrow> string \<Rightarrow> string list" where
  "splitOn sep [] = [[]]"
| "splitOn sep (c # cs) =
     (if c = sep then [] # splitOn sep cs
      else (case splitOn sep cs of
              [] \<Rightarrow> [[c]]
            | w # ws \<Rightarrow> (c # w) # ws))"

definition capitalize :: "string \<Rightarrow> string" where
  "capitalize w = (case w of [] \<Rightarrow> [] | c # cs \<Rightarrow> upper_char c # cs)"

definition camelCase :: "string \<Rightarrow> string" where
  "camelCase s =
     (case splitOn CHR ''_'' s of
        [] \<Rightarrow> []
      | first # rest \<Rightarrow> toLowerCase first @ concat (map capitalize rest))"

section \<open>Introspector\<close>

record IntrospectedParameter =
  name :: string
  toolParamName :: string
  pgType :: string
  param_description :: "string option"

record IntrospectedColumn =
  col_name :: string
  col_pgType :: string
  isNullable :: bool
  col_description :: "string option"

record IntrospectedToolDefinition =
  toolName :: string
  pgName :: string
  toolType :: object_type
  description :: "string option"
  parameters :: "IntrospectedParameter list"
  pgReturnType :: "string option"
  pgReturnsSet :: "bool option"
  columns :: "IntrospectedColumn list"

definition transformToToolDefinition :: "RawObjectDetails \<Rightarrow> IntrospectedToolDefinition" where
  "transformToToolDefinition details =
     (let toolName' = camelCase (object_name details);
          description' = comment details
      in if object_type details = FUNCTION \<and> raw_parameters details \<noteq> None then
           \<lparr>toolName = toolName',
            pgName = object_name details,
            toolType = object_type details,
            description = description',
            parameters =
              map (\<lambda>p. \<lparr>name = parameter_name p,
                         toolParamName = camelCase (parameter_name p),
                         pgType = data_type p,
                         param_description = description'\<rparr>)
                  (case raw_parameters details of Some ps \<Rightarrow> ps | None \<Rightarrow> []),
            pgReturnType = return_type details,
            pgReturnsSet = returns_set details,
            columns = []\<rparr>
         else if object_type details = VIEW \<and> raw_columns details \<noteq> None then
           \<lparr>toolName = toolName',
            pgName = object_name details,
            toolType = object_type details,
            description = description',
            parameters = [],
            pgReturnType = None,
            pgReturnsSet = None,
            columns =
              map (\<lambda>c. \<lparr>col_name = column_name c,
                         col_pgType = col_data_type c,
                         isNullable = is_nullable c,
                         col_description = col_comment c\<rparr>)
                  (case raw_columns details of Some cs \<Rightarrow> cs | None \<Rightarrow> [])\<rparr>
         else
           \<lparr>toolName = toolName',
            pgName = object_name details,
            toolType = object_type details,
            description = description',
            parameters = [],
            pgReturnType = None,
            pgReturnsSet = None,
            columns = []\<rparr>)"

text \<open>
  \<^verbatim>\<open>fetchObjectDetails\<close>: the whole body is inside \<^verbatim>\<open>try\<close>, and every failure ends in
  \<^verbatim>\<open>return null\<close> (here \<open>None\<close>).
\<close>

definition fetchObjectDetails ::
  "SupabaseClientWrapper \<Rightarrow> string \<Rightarrow> object_type \<Rightarrow> diagnostics \<times> RawObjectDetails option"
where
  "fetchObjectDetails supabase objectName objectType =
     (case callRpc supabase ''rpc_get_object_details''
             [''p_object_name'' \<mapsto> JStr objectName,
              ''p_object_type'' \<mapsto> JStr (object_type_text objectType)] of
        (lg, Inl e) \<Rightarrow>
          (lg @ [(ERROR, ''Failed to fetch details for '' @ object_type_text objectType @ '' ''
                          @ objectName @ '' via RPC:'')], None)
      | (lg, Inr result) \<Rightarrow>
          if \<not> truthy result \<or> \<not> typeofObject result then
            (lg @ [(WARN, ''RPC rpc_get_object_details returned invalid data for ''
                           @ object_type_text objectType @ '' '' @ objectName)], None)
          else
            (case objectDetailsSchema result of
               None \<Rightarrow>
                 (lg @ [(ERROR, ''Validation failed for rpc_get_object_details result (''
                                 @ objectName @ ''):'')], None)
             | Some details \<Rightarrow> (lg, Some details)))"

definition skipWarning :: "RawSchemaObject \<Rightarrow> string" where
  "skipWarning obj =
     ''Could not fetch or parse details for '' @ object_type_text (object_type obj) @ '' ''
       @ object_name obj @ '', skipping.''"

text \<open>
  The \<^verbatim>\<open>for\<close> loop of \<^verbatim>\<open>introspectSchema\<close>, with the array \<^verbatim>\<open>toolDefinitions\<close>
  and the diagnostics emitted so far as accumulators. Nothing in the body of the loop
  throws (\<^verbatim>\<open>fetchObjectDetails\<close> catches everything, the transformation is pure), so
  the \<^verbatim>\<open>catch\<close> of the loop has no branch here.
\<close>

fun introspectLoop ::
  "SupabaseClientWrapper \<Rightarrow> RawSchemaObject list \<Rightarrow> IntrospectedToolDefinition list
     \<Rightarrow> diagnostics \<Rightarrow> diagnostics \<times> IntrospectedToolDefinition list"
where
  "introspectLoop supabase [] toolDefinitions lg = (lg, toolDefinitions)"
| "introspectLoop supabase (obj # objs) toolDefinitions lg =
     (case fetchObjectDetails supabase (object_name obj) (object_type obj) of
        (lg', None) \<Rightarrow>
          introspectLoop supabase objs toolDefinitions (lg @ lg' @ [(WARN, skipWarning obj)])
      | (lg', Some details) \<Rightarrow>
          introspectLoop supabase objs
            (toolDefinitions @ [transformToToolDefinition details]) (lg @ lg'))"

text \<open>\<^verbatim>\<open>introspectSchema\<close>: \<open>Inl\<close> would be a rejected promise, \<open>Inr\<close> is the array
  the promise resolves to.\<close>

definition introspectSchema ::
  "SupabaseClientWrapper \<Rightarrow> diagnostics \<times> (js_throw + IntrospectedToolDefinition list)"
where
  "introspectSchema supabase =
     (case callRpc supabase ''rpc_get_schema_objects'' Map.empty of
        (lg, Inl e) \<Rightarrow> (lg @ [(ERROR, ''Failed to fetch schema objects via RPC:'')], Inr [])
      | (lg, Inr result) \<Rightarrow>
          (case z_array schemaObjectSchema result of
             None \<Rightarrow>
               (lg @ [(ERROR, ''Failed to parse result from rpc_get_schema_objects:'')], Inr [])
           | Some rawObjects \<Rightarrow>
               (case introspectLoop supabase rawObjects [] lg of
                  (lg', toolDefinitions) \<Rightarrow> (lg', Inr toolDefinitions))))"

text \<open>
  For stating what discovery keeps: the outcome of the detail fetch for one listed object,
  namely the validated details when the call succeeds and its result passes
  \<open>objectDetailsSchema\<close>, and \<open>None\<close> when the call fails or the result does not
  validate.
\<close>

definition validatedDetails :: "SupabaseClientWrapper \<Rightarrow> RawSchemaObject \<Rightarrow> RawObjectDetails option" where
  "validatedDetails supabase obj =
     (case client_rpc supabase ''rpc_get_object_details''
             [''p_object_name'' \<mapsto> JStr (object_name obj),
              ''p_object_type'' \<mapsto> JStr (object_type_text (object_type obj))] of
        Response d None \<Rightarrow> objectDetailsSchema d
      | _ \<Rightarrow> None)"

section \<open>Result encoding\<close>

text \<open>The replacer passed to \<^verbatim>\<open>JSON.stringify\<close>.\<close>

definition replacer :: "jsval \<Rightarrow> jsval" where
  "replacer v = (case v of JBigInt i \<Rightarrow> JStr (bigint_toString i) | _ \<Rightarrow> v)"

definition hex_char :: "nat \<Rightarrow> char" where
  "hex_char n = ''0123456789abcdef'' ! n"

text \<open>\<^verbatim>\<open>QuoteJSONString\<close> of the language standard.\<close>

definition quoteChar :: "char \<Rightarrow> string" where
  "quoteChar c =
     (let n = (of_char c :: nat) in
      if n = 0x22 then [CHR 0x5C, CHR 0x22]
      else if n = 0x5C then [CHR 0x5C, CHR 0x5C]
      else if n = 0x08 then [CHR 0x5C, CHR ''b'']
      else if n = 0x09 then [CHR 0x5C, CHR ''t'']
      else if n = 0x0A then [CHR 0x5C, CHR ''n'']
      else if n = 0x0C then [CHR 0x5C, CHR ''f'']
      else if n = 0x0D then [CHR 0x5C, CHR ''r'']
      else if n < 0x20 then [CHR 0x5C, CHR ''u'', CHR ''0'', CHR ''0'', hex_char (n div 16), hex_char (n mod 16)]
      else [c])"

definition QuoteJSONString :: "string \<Rightarrow> string" where
  "QuoteJSONString s = [CHR 0x22] @ concat (map quoteChar s) @ [CHR 0x22]"

fun join :: "string \<Rightarrow> string list \<Rightarrow> string" where
  "join sep [] = []"
| "join sep [x] = x"
| "join sep (x # y # ys) = x @ sep @ join sep (y # ys)"

definition gap :: string where
  "gap = ''  ''"

definition finishArray :: "string \<Rightarrow> string list \<Rightarrow> string" where
  "finishArray stepback partial =
     (if partial = [] then ''[]''
      else ''['' @ [CHR 0x0A] @ stepback @ gap
           @ join ('','' @ [CHR 0x0A] @ stepback @ gap) partial
           @ [CHR 0x0A] @ stepback @ '']'')"

definition finishObject :: "string \<Rightarrow> string list \<Rightarrow> string" where
  "finishObject stepback partial =
     (if partial = [] then ''{}''
      else ''{'' @ [CHR 0x0A] @ stepback @ gap
           @ join ('','' @ [CHR 0x0A] @ stepback @ gap) partial
           @ [CHR 0x0A] @ stepback @ ''}'')"

text \<open>The first throw among the results of a left-to-right evaluation, or all values.\<close>

fun collect :: "(js_throw + 'a) list \<Rightarrow> js_throw + 'a list" where
  "collect [] = Inr []"
| "collect (Inl e # _) = Inl e"
| "collect (Inr x # rs) = (case collect rs of Inl e \<Rightarrow> Inl e | Inr xs \<Rightarrow> Inr (x # xs))"

lemma replacer_JArr: "replacer v = JArr xs \<Longrightarrow> v = JArr xs"
  by (cases v) (auto simp: replacer_def)

lemma replacer_JObj: "replacer v = JObj kvs \<Longrightarrow> v = JObj kvs"
  by (cases v) (auto simp: replacer_def)

text \<open>
  \<^verbatim>\<open>SerializeJSONProperty\<close> of the language standard, with an indentation of two spaces
  (the third argument of \<^verbatim>\<open>JSON.stringify\<close>). The flag says whether the replacer above
  is applied to each value before it is serialized; the program always passes the
  replacer. The values are plain data: no value has a \<^verbatim>\<open>toJSON\<close> method, and every
  number is finite. \<open>None\<close> is the result \<^verbatim>\<open>undefined\<close>. A bigint that reaches the
  serialization raises a \<^verbatim>\<open>TypeError\<close>. The decimal text of a number, a floating-point
  matter, is the parameter \<open>numberToString\<close>.
\<close>

function SerializeJSONProperty ::
  "bool \<Rightarrow> (rat \<Rightarrow> string) \<Rightarrow> string \<Rightarrow> jsval \<Rightarrow> js_throw + string option"
where
  "SerializeJSONProperty useReplacer numberToString indent v =
     (case (if useReplacer then replacer v else v) of
        JUndefined \<Rightarrow> Inr None
      | JNull \<Rightarrow> Inr (Some ''null'')
      | JBool b \<Rightarrow> Inr (Some (if b then ''true'' else ''false''))
      | JNum r \<Rightarrow> Inr (Some (numberToString r))
      | JBigInt i \<Rightarrow> Inl (JsError ''Do not know how to serialize a BigInt'')
      | JStr s \<Rightarrow> Inr (Some (QuoteJSONString s))
      | JArr xs \<Rightarrow>
          (case collect (map (SerializeJSONProperty useReplacer numberToString (indent @ gap)) xs) of
             Inl e \<Rightarrow> Inl e
           | Inr strs \<Rightarrow>
               Inr (Some (finishArray indent
                 (map (\<lambda>strP. case strP of None \<Rightarrow> ''null'' | Some t \<Rightarrow> t) strs))))
      | JObj kvs \<Rightarrow>
          (case collect (map (\<lambda>kv. SerializeJSONProperty useReplacer numberToString
                                     (indent @ gap) (snd kv)) kvs) of
             Inl e \<Rightarrow> Inl e
           | Inr strs \<Rightarrow>
               Inr (Some (finishObject indent
                 (List.map_filter
                    (\<lambda>(k, strP). map_option (\<lambda>t. QuoteJSONString k @ '': '' @ t) strP)
                    (zip (map fst kvs) strs))))))"
  by pat_completeness auto
termination
  by (relation "measure (\<lambda>(u, f, i, v). size v)")
     (auto split: if_splits dest!: replacer_JArr replacer_JObj
        simp: size_list_estimation' less_Suc_eq_le)

declare SerializeJSONProperty.simps [simp del]

text \<open>\<^verbatim>\<open>JSON.stringify(rawResult, replacer, 2)\<close>.\<close>

definition JSON_stringify :: "(rat \<Rightarrow> string) \<Rightarrow> jsval \<Rightarrow> js_throw + string option" where
  "JSON_stringify numberToString v = SerializeJSONProperty True numberToString [] v"

text \<open>
  The encoding stated by the specification: a bigint becomes the string of its decimal
  digits, every other value passes through structurally.
\<close>

fun bigintsAsStrings :: "jsval \<Rightarrow> jsval" where
  "bigintsAsStrings (JBigInt i) = JStr (bigint_toString i)"
| "bigintsAsStrings (JArr xs) = JArr (map bigintsAsStrings xs)"
| "bigintsAsStrings (JObj kvs) = JObj (map (\<lambda>kv. (fst kv, bigintsAsStrings (snd kv))) kvs)"
| "bigintsAsStrings v = v"

section \<open>Tool factory\<close>

text \<open>
  \<^verbatim>\<open>generateInputSchemaShape\<close>: the \<^verbatim>\<open>forEach\<close> over the parameters, with the shape
  built so far and the warnings of the type mapper as accumulators. A description is
  attached when it is truthy, that is, present and not the empty string.
\<close>

fun inputSchemaLoop ::
  "IntrospectedParameter list \<Rightarrow> (string \<rightharpoonup> zod) \<Rightarrow> diagnostics
     \<Rightarrow> (string \<rightharpoonup> zod) \<times> diagnostics"
where
  "inputSchemaLoop [] schemaShape lg = (schemaShape, lg)"
| "inputSchemaLoop (param # params) schemaShape lg =
     (case mapPgTypeToZod (pgType param) False of
        (zodType, lg') \<Rightarrow>
          inputSchemaLoop params
            (assignProperty schemaShape (toolParamName param)
               (case param_description param of
                  Some d \<Rightarrow> if d \<noteq> [] then ZDescribe zodType d else zodType
                | None \<Rightarrow> zodType))
            (lg @ lg'))"

definition generateInputSchemaShape ::
  "IntrospectedParameter list \<Rightarrow> (string \<rightharpoonup> zod) \<times> diagnostics"
where
  "generateInputSchemaShape params = inputSchemaLoop params Map.empty []"

datatype TextContent = TextContent "string option"

record CallToolResult =
  isError :: "bool option"
  content :: "TextContent list"

text \<open>
  The \<^verbatim>\<open>forEach\<close> of the handler that fills \<^verbatim>\<open>rpcParams\<close>. The caller's argument
  map is \<open>None\<close> when \<^verbatim>\<open>args\<close> is \<^verbatim>\<open>undefined\<close> or \<^verbatim>\<open>null\<close>; otherwise it is the
  map of the own properties of \<^verbatim>\<open>args\<close>.
\<close>

fun rpcParamsLoop ::
  "IntrospectedParameter list \<Rightarrow> (string \<rightharpoonup> jsval) option \<Rightarrow> (string \<rightharpoonup> jsval)
     \<Rightarrow> (string \<rightharpoonup> jsval)"
where
  "rpcParamsLoop [] args rpcParams = rpcParams"
| "rpcParamsLoop (paramInfo # rest) args rpcParams =
     rpcParamsLoop rest args
       (case args of
          None \<Rightarrow> rpcParams
        | Some a \<Rightarrow>
            (case a (toolParamName paramInfo) of
               None \<Rightarrow> rpcParams
             | Some v \<Rightarrow> assignProperty rpcParams (name paramInfo) v))"

definition noContentText :: "string \<Rightarrow> string" where
  "noContentText tool = ''Tool '' @ tool @ '' executed successfully, returning no content.''"

text \<open>The body of the \<^verbatim>\<open>try\<close> of the handler: the text of the content item, or what was
  thrown.\<close>

definition handlerTry ::
  "(rat \<Rightarrow> string) \<Rightarrow> SupabaseClientWrapper \<Rightarrow> IntrospectedToolDefinition
     \<Rightarrow> (string \<rightharpoonup> jsval) option \<Rightarrow> diagnostics \<times> (js_throw + string option)"
where
  "handlerTry numberToString supabase definition args =
     (case (if toolType definition = VIEW then selectFromView supabase (pgName definition)
            else callRpc supabase (pgName definition)
                   (rpcParamsLoop (parameters definition) args Map.empty)) of
        (lg, Inl e) \<Rightarrow> (lg, Inl e)
      | (lg, Inr rawResult) \<Rightarrow>
          if rawResult = JUndefined \<or> rawResult = JNull then
            (lg, Inr (Some (noContentText (toolName definition))))
          else (lg, JSON_stringify numberToString rawResult))"

definition handler ::
  "(rat \<Rightarrow> string) \<Rightarrow> SupabaseClientWrapper \<Rightarrow> IntrospectedToolDefinition
     \<Rightarrow> (string \<rightharpoonup> jsval) option \<Rightarrow> diagnostics \<times> CallToolResult"
where
  "handler numberToString supabase definition args =
     (case handlerTry numberToString supabase definition args of
        (lg, Inr contentItemText) \<Rightarrow>
          (lg, \<lparr>isError = None, content = [TextContent contentItemText]\<rparr>)
      | (lg, Inl e) \<Rightarrow>
          (lg @ [(ERROR, ''Error executing tool '' @ toolName definition @ '':'')],
           \<lparr>isError = Some True,
            content = [TextContent (Some
              (case e of
                 JsError message \<Rightarrow> ''Tool execution failed: '' @ message
               | JsThrown _ \<Rightarrow>
                   ''An unknown error occurred during tool execution: ''
                     @ toolName definition))]\<rparr>))"

text \<open>What \<^verbatim>\<open>server.tool\<close> is given for one tool: the description when one is passed,
  the input shape and the handler.\<close>

record RegisteredTool =
  rt_description :: "string option"
  rt_inputSchema :: "string \<rightharpoonup> zod"
  rt_handler :: "(string \<rightharpoonup> jsval) option \<Rightarrow> diagnostics \<times> CallToolResult"

type_synonym McpServer = "string \<rightharpoonup> RegisteredTool"

text \<open>
  Modelled from the spec: \<^verbatim>\<open>McpServer.tool\<close> belongs to the package
  \<^verbatim>\<open>@modelcontextprotocol/sdk\<close>, whose code is not part of the repository. Following
  the specification (two tools must not share a name; on a collision the later one is
  rejected, never silently overwritten), registering a name that the server already
  holds throws and leaves the server as it was; any other name is added.
\<close>

definition server_tool :: "McpServer \<Rightarrow> string \<Rightarrow> RegisteredTool \<Rightarrow> js_throw + McpServer" where
  "server_tool server tool t =
     (case server tool of
        Some _ \<Rightarrow> Inl (JsError (''Tool '' @ tool @ '' is already registered''))
      | None \<Rightarrow> Inr (server(tool \<mapsto> t)))"

definition registrationError :: "string \<Rightarrow> string" where
  "registrationError tool = ''Failed to define or register tool '' @ tool @ '':''"

text \<open>What the body of the \<^verbatim>\<open>forEach\<close> of \<^verbatim>\<open>registerTools\<close> passes to
  \<^verbatim>\<open>server.tool\<close> for one definition.\<close>

definition toolOf ::
  "(rat \<Rightarrow> string) \<Rightarrow> SupabaseClientWrapper \<Rightarrow> IntrospectedToolDefinition
     \<Rightarrow> (string \<rightharpoonup> zod) \<Rightarrow> RegisteredTool"
where
  "toolOf numberToString supabase definition inputSchemaShape =
     \<lparr>rt_description =
        (case description definition of
           Some d \<Rightarrow> if d \<noteq> [] then Some d else None
         | None \<Rightarrow> None),
      rt_inputSchema = inputSchemaShape,
      rt_handler = handler numberToString supabase definition\<rparr>"

definition inputSchemaShapeOf ::
  "IntrospectedToolDefinition \<Rightarrow> (string \<rightharpoonup> zod) \<times> diagnostics" where
  "inputSchemaShapeOf definition =
     (if toolType definition = FUNCTION then generateInputSchemaShape (parameters definition)
      else (Map.empty, []))"

text \<open>\<^verbatim>\<open>registerTools\<close>: the \<^verbatim>\<open>forEach\<close> over the definitions; the \<^verbatim>\<open>catch\<close> of
  its body reports the failure and goes on with the next definition.\<close>

fun registerTools ::
  "(rat \<Rightarrow> string) \<Rightarrow> SupabaseClientWrapper \<Rightarrow> IntrospectedToolDefinition list
     \<Rightarrow> McpServer \<Rightarrow> diagnostics \<Rightarrow> McpServer \<times> diagnostics"
where
  "registerTools numberToString supabase [] server lg = (server, lg)"
| "registerTools numberToString supabase (definition # rest) server lg =
     (case inputSchemaShapeOf definition of
        (inputSchemaShape, lg') \<Rightarrow>
          (case server_tool server (toolName definition)
                  (toolOf numberToString supabase definition inputSchemaShape) of
             Inr server' \<Rightarrow> registerTools numberToString supabase rest server' (lg @ lg')
           | Inl e \<Rightarrow>
               registerTools numberToString supabase rest server
                 (lg @ lg' @ [(ERROR, registrationError (toolName definition))])))"

section \<open>Example catalogs\<close>

text \<open>A database client that answers the listing call with \<open>listing\<close> and the detail
  call for an object name \<open>n\<close> with \<open>details n\<close>.\<close>

definition catalogClient :: "client_result \<Rightarrow> (string \<Rightarrow> client_result) \<Rightarrow> SupabaseClientWrapper" where
  "catalogClient listing details =
     \<lparr>schema = ''mcp_tools'',
      client_rpc = (\<lambda>functionName params.
        if functionName = ''rpc_get_schema_objects'' then listing
        else (case params ''p_object_name'' of
                Some (JStr n) \<Rightarrow> details n
              | _ \<Rightarrow> Response JNull None)),
      client_select = (\<lambda>viewName. Response (JArr []) None)\<rparr>"

definition listedObject :: "string \<Rightarrow> string \<Rightarrow> jsval \<Rightarrow> jsval" where
  "listedObject n t c = JObj [(''object_name'', JStr n), (''object_type'', JStr t), (''comment'', c)]"

definition parameterJson :: "string \<Rightarrow> string \<Rightarrow> rat \<Rightarrow> jsval" where
  "parameterJson n t i =
     JObj [(''parameter_name'', JStr n), (''data_type'', JStr t), (''position'', JNum i)]"

definition columnJson :: "string \<Rightarrow> string \<Rightarrow> bool \<Rightarrow> jsval \<Rightarrow> jsval" where
  "columnJson n t b c =
     JObj [(''column_name'', JStr n), (''data_type'', JStr t), (''is_nullable'', JBool b),
           (''comment'', c)]"

text \<open>The catalog of the two end-to-end scenarios, with a third listed function whose
  detail call gives the error object of the catalog helper.\<close>

definition scenarioDetails :: "string \<Rightarrow> client_result" where
  "scenarioDetails n =
     (if n = ''active_user_profiles'' then
        Response (JObj
          [(''object_name'', JStr n), (''object_type'', JStr ''VIEW''),
           (''comment'', JStr ''Recently active user profiles.''),
           (''columns'', JArr
              [columnJson ''id'' ''uuid'' False JNull,
               columnJson ''username'' ''text'' False (JStr ''The unique username.''),
               columnJson ''email'' ''text'' False JNull,
               columnJson ''last_login'' ''timestamptz'' True
                 (JStr ''Timestamp of the last login.'')])]) None
      else if n = ''add_note_to_user'' then
        Response (JObj
          [(''object_name'', JStr n), (''object_type'', JStr ''FUNCTION''),
           (''comment'', JStr ''Adds a note to a user profile.''),
           (''parameters'', JArr
              [parameterJson ''p_user_id'' ''uuid'' 1, parameterJson ''p_note_text'' ''text'' 2]),
           (''return_type'', JStr ''jsonb''), (''returns_set'', JBool False)]) None
      else Response (JObj [(''error'', JStr ''Function details not found or ambiguous'')]) None)"

definition scenarioClient :: SupabaseClientWrapper where
  "scenarioClient =
     catalogClient
       (Response (JArr
          [listedObject ''active_user_profiles'' ''VIEW'' (JStr ''Recently active user profiles.''),
           listedObject ''dropped_meanwhile'' ''FUNCTION'' JNull,
           listedObject ''add_note_to_user'' ''FUNCTION'' (JStr ''Adds a note to a user profile.'')])
          None)
       scenarioDetails"

text \<open>A catalog whose listing call is refused by the database.\<close>

definition unreachableClient :: SupabaseClientWrapper where
  "unreachableClient =
     catalogClient (Response JNull (Some ''permission denied for schema mcp_tools''))
       scenarioDetails"

text \<open>A catalog with one function whose parameters are reported at positions 1 and 3.\<close>

definition gapClient :: SupabaseClientWrapper where
  "gapClient =
     catalogClient
       (Response (JArr [listedObject ''f'' ''FUNCTION'' JNull]) None)
       (\<lambda>n. Response (JObj
          [(''object_name'', JStr n), (''object_type'', JStr ''FUNCTION''), (''comment'', JNull),
           (''parameters'', JArr [parameterJson ''a'' ''int4'' 1, parameterJson ''b'' ''text'' 3]),
           (''return_type'', JStr ''void''), (''returns_set'', JBool False)]) None)"

text \<open>A catalog with one function whose detail payload has the common fields only.\<close>

definition bareClient :: SupabaseClientWrapper where
  "bareClient =
     catalogClient
       (Response (JArr [listedObject ''ping'' ''FUNCTION'' JNull]) None)
       (\<lambda>n. Response (JObj
          [(''object_name'', JStr n), (''object_type'', JStr ''FUNCTION''), (''comment'', JNull)])
          None)"

text \<open>The decimal text of a whole number, for the examples that need a value for the
  parameter \<open>numberToString\<close>.\<close>

definition wholeNumberToString :: "rat \<Rightarrow> string" where
  "wholeNumberToString r = bigint_toString \<lfloor>r\<rfloor>"

text \<open>Three tool definitions, the first and the last with the same public name.\<close>

definition notesView :: IntrospectedToolDefinition where
  "notesView =
     \<lparr>toolName = ''userNotes'', pgName = ''user_notes'', toolType = VIEW,
      description = Some ''All notes.'', parameters = [], pgReturnType = None,
      pgReturnsSet = None, columns = []\<rparr>"

definition pingFunction :: IntrospectedToolDefinition where
  "pingFunction =
     \<lparr>toolName = ''ping'', pgName = ''ping'', toolType = FUNCTION,
      description = None, parameters = [], pgReturnType = Some ''void'',
      pgReturnsSet = Some False, columns = []\<rparr>"

definition notesFunction :: IntrospectedToolDefinition where
  "notesFunction =
     \<lparr>toolName = ''userNotes'', pgName = ''user__notes'', toolType = FUNCTION,
      description = None,
      parameters = [\<lparr>name = ''p_user_id'', toolParamName = ''pUserId'', pgType = ''uuid'',
                      param_description = None\<rparr>],
      pgReturnType = Some ''text'', pgReturnsSet = Some True, columns = []\<rparr>"

text \<open>A database whose function \<^verbatim>\<open>user__notes\<close> returns an empty set of rows, and a
  database whose function \<^verbatim>\<open>ping\<close> returns a bigint above \<open>2^53\<close>.\<close>

definition emptySetClient :: SupabaseClientWrapper where
  "emptySetClient =
     \<lparr>schema = ''mcp_tools'',
      client_rpc = (\<lambda>functionName params. Response (JArr []) None),
      client_select = (\<lambda>viewName. Response JNull None)\<rparr>"

definition bigintClient :: SupabaseClientWrapper where
  "bigintClient =
     \<lparr>schema = ''mcp_tools'',
      client_rpc = (\<lambda>functionName params.
        Response (JObj [(''id'', JBigInt 9007199254740993)]) None),
      client_select = (\<lambda>viewName. Response JNull None)\<rparr>"

section \<open>Properties of the Type Mapper\<close>

text \<open>The type names of the switch, with the schema each is mapped to for a column that
  is not nullable; none of them is reported.\<close>

lemma mapPgTypeToZod_table:
  "map (\<lambda>t. mapPgTypeToZod t False)
     [''text'', ''varchar'', ''char'', ''name'', ''bpchar'', ''bytea'']
     = replicate 6 (ZString, [])"
  "map (\<lambda>t. mapPgTypeToZod t False)
     [''int'', ''integer'', ''int4'', ''smallint'', ''serial'', ''smallserial'']
     = replicate 6 (ZNumberInt, [])"
  "map (\<lambda>t. mapPgTypeToZod t False) [''bigint'', ''bigserial'', ''int8'']
     = replicate 3 (ZBigint, [])"
  "map (\<lambda>t. mapPgTypeToZod t False) [''numeric'', ''decimal'']
     = replicate 2 (ZStringRegex numericRegex, [])"
  "map (\<lambda>t. mapPgTypeToZod t False) [''real'', ''float4'', ''double precision'', ''float8'']
     = replicate 4 (ZNumber, [])"
  "map (\<lambda>t. mapPgTypeToZod t False)
     [''boolean'', ''bool'', ''uuid'', ''date'', ''timestamp'', ''timestamptz'', ''json'', ''jsonb'']
     = [(ZBoolean, []), (ZBoolean, []), (ZStringUuid, []), (ZStringDate, []),
        (ZStringDatetime, []), (ZStringDatetime, []), (ZAny, []), (ZAny, [])]"
  by code_simp+

text \<open>A type name that the switch does not know is mapped to the open schema, wrapped
  as its array marker and the nullability say.\<close>

lemma mapPgTypeToZod_unknown:
  "switchElementType (removeSpaces (toLowerCase
     (if startsWith typeName ''_'' then substring1 typeName
      else if endsWith typeName ''[]'' then slice0m2 typeName else typeName))) = None
   \<Longrightarrow> fst (mapPgTypeToZod typeName nullable) =
         (let open = (if startsWith typeName ''_'' \<or> endsWith typeName ''[]''
                      then ZArray ZAny else ZAny)
          in if nullable then ZNullable open else open)"
  by (auto simp: mapPgTypeToZod_def Let_def split: if_splits)

text \<open>
  C2. The catalog reports a \<^verbatim>\<open>smallint\<close> column under the type name \<^verbatim>\<open>int2\<close>,
  which the table of the specification sends to the integer schema. The switch has
  labels for \<^verbatim>\<open>int4\<close>, \<^verbatim>\<open>int8\<close>, \<^verbatim>\<open>smallint\<close> and the serial names but none
  for \<^verbatim>\<open>int2\<close>: that name takes the default branch, is mapped to the open schema
  \<^verbatim>\<open>z.any()\<close> and is reported as unknown, while its siblings map to the integer
  schema.
\<close>

theorem mapPgTypeToZod_int2:
  "mapPgTypeToZod ''int2'' False
     = (ZAny, [(WARN, ''Unknown PostgreSQL element type '' @ [CHR 0x22] @ ''int2'' @ [CHR 0x22]
                 @ '', mapping to z.any().'')])
   \<and> mapPgTypeToZod ''int4'' False = (ZNumberInt, [])
   \<and> mapPgTypeToZod ''smallint'' False = (ZNumberInt, [])"
  by code_simp

section \<open>Properties of the Introspector\<close>

lemmas example_catalog_defs =
  catalogClient_def listedObject_def parameterJson_def columnJson_def scenarioDetails_def
  scenarioClient_def unreachableClient_def gapClient_def bareClient_def

text \<open>The detail fetch yields the validated details exactly when the call succeeds and
  its result passes the detail schema.\<close>

lemma fetchObjectDetails_valid:
  "snd (fetchObjectDetails supabase n t) =
     (case client_rpc supabase ''rpc_get_object_details''
             [''p_object_name'' \<mapsto> JStr n, ''p_object_type'' \<mapsto> JStr (object_type_text t)] of
        Response d None \<Rightarrow> objectDetailsSchema d
      | _ \<Rightarrow> None)"
  by (auto simp: fetchObjectDetails_def callRpc_def objectDetailsSchema_def truthy_def
      typeofObject_def
      split: client_result.splits option.splits jsval.splits prod.splits)

lemma introspectLoop_defs:
  "snd (introspectLoop supabase objs defs lg) =
     defs @ concat (map (\<lambda>obj.
       case snd (fetchObjectDetails supabase (object_name obj) (object_type obj)) of
         None \<Rightarrow> []
       | Some d \<Rightarrow> [transformToToolDefinition d]) objs)"
  by (induction objs arbitrary: defs lg) (auto split: prod.splits option.splits)

lemma introspectLoop_log_mono:
  "set lg \<subseteq> set (fst (introspectLoop supabase objs defs lg))"
proof (induction objs arbitrary: defs lg)
  case Nil
  then show ?case by simp
next
  case (Cons obj objs)
  show ?case
  proof (cases "fetchObjectDetails supabase (object_name obj) (object_type obj)")
    case (Pair lg' r)
    show ?thesis
    proof (cases r)
      case None
      with Pair Cons.IH[of "lg @ lg' @ [(WARN, skipWarning obj)]" defs] show ?thesis by auto
    next
      case (Some d)
      with Pair Cons.IH[of "lg @ lg'" "defs @ [transformToToolDefinition d]"]
      show ?thesis by auto
    qed
  qed
qed

lemma introspectLoop_warns:
  "obj \<in> set objs
    \<Longrightarrow> snd (fetchObjectDetails supabase (object_name obj) (object_type obj)) = None
    \<Longrightarrow> (WARN, skipWarning obj) \<in> set (fst (introspectLoop supabase objs defs lg))"
proof (induction objs arbitrary: defs lg)
  case Nil
  then show ?case by simp
next
  case (Cons o1 objs)
  show ?case
  proof (cases "fetchObjectDetails supabase (object_name o1) (object_type o1)")
    case (Pair lg' r)
    show ?thesis
    proof (cases "obj = o1")
      case True
      with Cons.prems Pair have r: "r = None" by simp
      have "(WARN, skipWarning obj) \<in> set (lg @ lg' @ [(WARN, skipWarning obj)])" by simp
      with introspectLoop_log_mono[of "lg @ lg' @ [(WARN, skipWarning obj)]" supabase objs defs]
      show ?thesis using Pair r True by auto
    next
      case False
      with Cons.prems have "obj \<in> set objs" by simp
      from Cons.IH[OF this Cons.prems(2)] show ?thesis using Pair
        by (cases r) auto
    qed
  qed
qed

text \<open>The promise of \<^verbatim>\<open>introspectSchema\<close> never rejects.\<close>

lemma introspectSchema_returns: "\<exists>defs. snd (introspectSchema supabase) = Inr defs"
  by (auto simp: introspectSchema_def split: prod.splits sum.splits option.splits)

text \<open>
  C1, as the code has it. When the listing call fails, or its result does not parse as
  an array of listed objects, \<^verbatim>\<open>introspectSchema\<close> reports the failure through
  \<^verbatim>\<open>console.error\<close> and resolves to the empty array: nothing is thrown to the caller.
\<close>

theorem listing_failure_returns_empty:
  assumes "case snd (callRpc supabase ''rpc_get_schema_objects'' Map.empty) of
             Inl e \<Rightarrow> True
           | Inr result \<Rightarrow> z_array schemaObjectSchema result = None"
  shows "snd (introspectSchema supabase) = Inr []
         \<and> ((ERROR, ''Failed to fetch schema objects via RPC:'')
               \<in> set (fst (introspectSchema supabase))
            \<or> (ERROR, ''Failed to parse result from rpc_get_schema_objects:'')
               \<in> set (fst (introspectSchema supabase)))"
  using assms
  by (auto simp: introspectSchema_def split: prod.splits sum.splits option.splits)

theorem listing_failure_returns_empty_witness:
  "snd (callRpc unreachableClient ''rpc_get_schema_objects'' Map.empty)
     = Inl (JsError (''Supabase RPC call failed for rpc_get_schema_objects: ''
                      @ ''permission denied for schema mcp_tools''))
   \<and> snd (introspectSchema unreachableClient) = Inr []
   \<and> (ERROR, ''Failed to fetch schema objects via RPC:'')
        \<in> set (fst (introspectSchema unreachableClient))"
proof -
  have call: "snd (callRpc unreachableClient ''rpc_get_schema_objects'' Map.empty)
     = Inl (JsError (''Supabase RPC call failed for rpc_get_schema_objects: ''
                      @ ''permission denied for schema mcp_tools''))"
    by (simp add: example_catalog_defs callRpc_def)
  have "snd (introspectSchema unreachableClient) = Inr []"
    using listing_failure_returns_empty[of unreachableClient] call by simp
  moreover have "(ERROR, ''Failed to fetch schema objects via RPC:'')
        \<in> set (fst (introspectSchema unreachableClient))"
    by (simp add: example_catalog_defs introspectSchema_def callRpc_def)
  ultimately show ?thesis using call by simp
qed

text \<open>
  C1, as stated, fails: for a catalog whose listing call is refused, the call of the
  wrapper throws, and yet discovery resolves to a list, the empty one.
\<close>

theorem listing_failure_counterexample:
  "snd (callRpc unreachableClient ''rpc_get_schema_objects'' Map.empty)
     = Inl (JsError ''Supabase RPC call failed for rpc_get_schema_objects: permission denied for schema mcp_tools'')
   \<and> snd (introspectSchema unreachableClient) = Inr []"
  by (simp add: example_catalog_defs introspectSchema_def callRpc_def)

text \<open>
  C6. When the listing succeeds, discovery resolves to the tool definitions of exactly
  the listed objects whose detail fetch succeeds and validates, in listing order; every
  other listed object is skipped with a warning naming it. Discovery never throws.
\<close>

theorem discovery_skips_only_failed_objects:
  assumes listing: "client_rpc supabase ''rpc_get_schema_objects'' Map.empty = Response result None"
    and parsed: "z_array schemaObjectSchema result = Some objs"
  shows "snd (introspectSchema supabase) =
           Inr (concat (map (\<lambda>obj. case validatedDetails supabase obj of
                                      None \<Rightarrow> []
                                    | Some d \<Rightarrow> [transformToToolDefinition d]) objs))
         \<and> (\<forall>obj \<in> set objs. validatedDetails supabase obj = None \<longrightarrow>
               (WARN, skipWarning obj) \<in> set (fst (introspectSchema supabase)))"
proof -
  have valid: "snd (fetchObjectDetails supabase (object_name obj) (object_type obj))
                 = validatedDetails supabase obj" for obj
    by (simp add: fetchObjectDetails_valid validatedDetails_def)
  have call: "callRpc supabase ''rpc_get_schema_objects'' Map.empty = ([], Inr result)"
    using listing by (simp add: callRpc_def)
  have schema: "introspectSchema supabase =
      (fst (introspectLoop supabase objs [] []), Inr (snd (introspectLoop supabase objs [] [])))"
    using call parsed by (simp add: introspectSchema_def split: prod.splits)
  have "snd (introspectSchema supabase) =
          Inr (concat (map (\<lambda>obj. case validatedDetails supabase obj of
                                     None \<Rightarrow> []
                                   | Some d \<Rightarrow> [transformToToolDefinition d]) objs))"
    by (simp add: schema introspectLoop_defs valid)
  moreover have "(WARN, skipWarning obj) \<in> set (fst (introspectSchema supabase))"
    if "obj \<in> set objs" and "validatedDetails supabase obj = None" for obj
    using introspectLoop_warns[of obj objs supabase "[]" "[]"] that
    by (simp add: schema valid)
  ultimately show ?thesis by blast
qed

theorem discovery_skips_only_failed_objects_witness:
  "(case snd (introspectSchema scenarioClient) of
      Inr defs \<Rightarrow> map toolName defs
    | Inl e \<Rightarrow> []) = [''activeUserProfiles'', ''addNoteToUser'']
   \<and> (WARN, ''Could not fetch or parse details for FUNCTION dropped_meanwhile, skipping.'')
        \<in> set (fst (introspectSchema scenarioClient))"
proof -
  let ?o1 = "\<lparr>object_name = ''active_user_profiles'', object_type = VIEW,
               comment = Some ''Recently active user profiles.''\<rparr>"
  let ?o2 = "\<lparr>object_name = ''dropped_meanwhile'', object_type = FUNCTION, comment = None\<rparr>"
  let ?o3 = "\<lparr>object_name = ''add_note_to_user'', object_type = FUNCTION,
               comment = Some ''Adds a note to a user profile.''\<rparr>"
  let ?listing = "JArr
          [listedObject ''active_user_profiles'' ''VIEW'' (JStr ''Recently active user profiles.''),
           listedObject ''dropped_meanwhile'' ''FUNCTION'' JNull,
           listedObject ''add_note_to_user'' ''FUNCTION'' (JStr ''Adds a note to a user profile.'')]"
  have listing: "client_rpc scenarioClient ''rpc_get_schema_objects'' Map.empty
                   = Response ?listing None"
    by (simp add: scenarioClient_def catalogClient_def)
  have parsed: "z_array schemaObjectSchema ?listing = Some [?o1, ?o2, ?o3]"
    by code_simp
  have t1: "map_option (\<lambda>d. toolName (transformToToolDefinition d))
              (validatedDetails scenarioClient ?o1) = Some ''activeUserProfiles''"
    by code_simp
  have v2: "validatedDetails scenarioClient ?o2 = None"
    by code_simp
  have t3: "map_option (\<lambda>d. toolName (transformToToolDefinition d))
              (validatedDetails scenarioClient ?o3) = Some ''addNoteToUser''"
    by code_simp
  from t1 obtain d1 where d1: "validatedDetails scenarioClient ?o1 = Some d1"
    and n1: "toolName (transformToToolDefinition d1) = ''activeUserProfiles''"
    by blast
  from t3 obtain d3 where d3: "validatedDetails scenarioClient ?o3 = Some d3"
    and n3: "toolName (transformToToolDefinition d3) = ''addNoteToUser''"
    by blast
  have warning: "skipWarning ?o2
                   = ''Could not fetch or parse details for FUNCTION dropped_meanwhile, skipping.''"
    by code_simp
  from discovery_skips_only_failed_objects[OF listing parsed]
  have defs: "snd (introspectSchema scenarioClient)
               = Inr [transformToToolDefinition d1, transformToToolDefinition d3]"
    and warn: "(WARN, skipWarning ?o2) \<in> set (fst (introspectSchema scenarioClient))"
    by (simp_all add: d1 v2 d3)
  show ?thesis
    using warn by (simp add: defs n1 n3 warning)
qed

text \<open>
  C10. A detail payload of kind FUNCTION that has the common fields and none of
  \<^verbatim>\<open>parameters\<close>, \<^verbatim>\<open>return_type\<close> and \<^verbatim>\<open>returns_set\<close> (its \<^verbatim>\<open>columns\<close> field,
  if there is one, being a valid column array) passes the validation of
  \<^verbatim>\<open>fetchObjectDetails\<close> and is transformed into a tool definition with no parameters
  and an undefined return type.
\<close>

theorem bare_function_payload_becomes_tool:
  assumes response: "client_rpc supabase ''rpc_get_object_details''
                       [''p_object_name'' \<mapsto> JStr objectName,
                        ''p_object_type'' \<mapsto> JStr ''FUNCTION''] = Response (JObj kvs) None"
    and name: "getProp kvs ''object_name'' = JStr n"
    and kind: "getProp kvs ''object_type'' = JStr ''FUNCTION''"
    and comment: "z_nullable z_string (getProp kvs ''comment'') = Some c"
    and columns: "z_optional (z_array columnDetailSchema) (getProp kvs ''columns'') = Some cols"
    and absent: "map_of kvs ''parameters'' = None" "map_of kvs ''return_type'' = None"
                "map_of kvs ''returns_set'' = None"
  shows "\<exists>details. fetchObjectDetails supabase objectName FUNCTION = ([], Some details)
           \<and> transformToToolDefinition details =
               \<lparr>toolName = camelCase n, pgName = n, toolType = FUNCTION, description = c,
                parameters = [], pgReturnType = None, pgReturnsSet = None, columns = []\<rparr>"
proof -
  let ?details = "\<lparr>object_name = n, object_type = FUNCTION, comment = c, raw_columns = cols,
                    raw_parameters = None, return_type = None, returns_set = None\<rparr>"
  have parse: "objectDetailsSchema (JObj kvs) = Some ?details"
    using name kind comment columns absent
    by (simp add: objectDetailsSchema_def getProp_def z_string_def z_object_type_def
        z_optional_def)
  have "fetchObjectDetails supabase objectName FUNCTION = ([], Some ?details)"
    using response parse
    by (simp add: fetchObjectDetails_def callRpc_def object_type_text_def truthy_def
        typeofObject_def)
  moreover have "transformToToolDefinition ?details =
               \<lparr>toolName = camelCase n, pgName = n, toolType = FUNCTION, description = c,
                parameters = [], pgReturnType = None, pgReturnsSet = None, columns = []\<rparr>"
    by (simp add: transformToToolDefinition_def Let_def)
  ultimately show ?thesis by blast
qed

theorem bare_function_payload_becomes_tool_witness:
  "snd (introspectSchema bareClient) =
     Inr [\<lparr>toolName = ''ping'', pgName = ''ping'', toolType = FUNCTION, description = None,
           parameters = [], pgReturnType = None, pgReturnsSet = None, columns = []\<rparr>]"
proof -
  let ?kvs = "[(''object_name'', JStr ''ping''), (''object_type'', JStr ''FUNCTION''),
               (''comment'', JNull)]"
  have response: "client_rpc bareClient ''rpc_get_object_details''
                    [''p_object_name'' \<mapsto> JStr ''ping'', ''p_object_type'' \<mapsto> JStr ''FUNCTION'']
                  = Response (JObj ?kvs) None"
    by (simp add: bareClient_def catalogClient_def)
  have name: "getProp ?kvs ''object_name'' = JStr ''ping''"
    and kind: "getProp ?kvs ''object_type'' = JStr ''FUNCTION''"
    and comment: "z_nullable z_string (getProp ?kvs ''comment'') = Some None"
    and columns: "z_optional (z_array columnDetailSchema) (getProp ?kvs ''columns'') = Some None"
    and absent: "map_of ?kvs ''parameters'' = None" "map_of ?kvs ''return_type'' = None"
                "map_of ?kvs ''returns_set'' = None"
    by (simp_all add: getProp_def z_nullable_def z_optional_def)
  from bare_function_payload_becomes_tool[OF response name kind comment columns absent]
  obtain details where
    fetch: "fetchObjectDetails bareClient ''ping'' FUNCTION = ([], Some details)"
    and tool: "transformToToolDefinition details =
               \<lparr>toolName = camelCase ''ping'', pgName = ''ping'', toolType = FUNCTION,
                description = None, parameters = [], pgReturnType = None, pgReturnsSet = None,
                columns = []\<rparr>"
    by blast
  have call: "callRpc bareClient ''rpc_get_schema_objects'' Map.empty
                = ([], Inr (JArr [listedObject ''ping'' ''FUNCTION'' JNull]))"
    by (simp add: bareClient_def catalogClient_def callRpc_def)
  have parsed: "z_array schemaObjectSchema (JArr [listedObject ''ping'' ''FUNCTION'' JNull])
                  = Some [\<lparr>object_name = ''ping'', object_type = FUNCTION, comment = None\<rparr>]"
    by code_simp
  have camel: "camelCase ''ping'' = ''ping''"
    by code_simp
  show ?thesis
    by (simp add: introspectSchema_def call parsed fetch tool camel)
qed

text \<open>
  C4, as the code has it. The parameters of a FUNCTION tool definition are the
  parameters of the validated detail payload, one for one and in payload order, with
  their catalog names and types; the tool definition has no columns. The transformation
  does not read the positions: whatever they are replaced by, the same tool definition
  results. Discovery never throws.
\<close>

theorem function_parameters_follow_payload:
  assumes "object_type details = FUNCTION" and "raw_parameters details = Some ps"
  shows "map name (parameters (transformToToolDefinition details)) = map parameter_name ps
         \<and> map pgType (parameters (transformToToolDefinition details)) = map data_type ps
         \<and> columns (transformToToolDefinition details) = []
         \<and> (\<forall>f. transformToToolDefinition
                   (details\<lparr>raw_parameters := Some (map (\<lambda>p. p\<lparr>position := f p\<rparr>) ps)\<rparr>)
                 = transformToToolDefinition details)
         \<and> (\<forall>supabase. \<exists>defs. snd (introspectSchema supabase) = Inr defs)"
  using assms introspectSchema_returns
  by (simp add: transformToToolDefinition_def comp_def Let_def)

theorem function_parameters_follow_payload_witness:
  "map name (parameters (transformToToolDefinition
     \<lparr>object_name = ''f'', object_type = FUNCTION, comment = None, raw_columns = None,
      raw_parameters = Some [\<lparr>parameter_name = ''a'', data_type = ''int4'', position = 1\<rparr>,
                             \<lparr>parameter_name = ''b'', data_type = ''text'', position = 3\<rparr>],
      return_type = Some ''void'', returns_set = Some False\<rparr>)) = [''a'', ''b'']"
  using function_parameters_follow_payload
    [of "\<lparr>object_name = ''f'', object_type = FUNCTION, comment = None, raw_columns = None,
      raw_parameters = Some [\<lparr>parameter_name = ''a'', data_type = ''int4'', position = 1\<rparr>,
                             \<lparr>parameter_name = ''b'', data_type = ''text'', position = 3\<rparr>],
      return_type = Some ''void'', returns_set = Some False\<rparr>"
        "[\<lparr>parameter_name = ''a'', data_type = ''int4'', position = 1\<rparr>,
          \<lparr>parameter_name = ''b'', data_type = ''text'', position = 3\<rparr>]"]
  by simp

text \<open>
  C4, as stated, fails: the detail payload of the function \<^verbatim>\<open>f\<close> reports its two
  parameters at positions 1 and 3, which validates, and discovery turns the object into
  a tool with these two parameters, reporting nothing.
\<close>

theorem position_gap_counterexample:
  "objectDetailsSchema (JObj
      [(''object_name'', JStr ''f''), (''object_type'', JStr ''FUNCTION''), (''comment'', JNull),
       (''parameters'', JArr [parameterJson ''a'' ''int4'' 1, parameterJson ''b'' ''text'' 3]),
       (''return_type'', JStr ''void''), (''returns_set'', JBool False)])
     = Some \<lparr>object_name = ''f'', object_type = FUNCTION, comment = None, raw_columns = None,
             raw_parameters = Some [\<lparr>parameter_name = ''a'', data_type = ''int4'', position = 1\<rparr>,
                                    \<lparr>parameter_name = ''b'', data_type = ''text'', position = 3\<rparr>],
             return_type = Some ''void'', returns_set = Some False\<rparr>
   \<and> introspectSchema gapClient =
       ([], Inr [\<lparr>toolName = ''f'', pgName = ''f'', toolType = FUNCTION, description = None,
                  parameters = [\<lparr>name = ''a'', toolParamName = ''a'', pgType = ''int4'',
                                  param_description = None\<rparr>,
                                \<lparr>name = ''b'', toolParamName = ''b'', pgType = ''text'',
                                  param_description = None\<rparr>],
                  pgReturnType = Some ''void'', pgReturnsSet = Some False, columns = []\<rparr>])"
  by code_simp

section \<open>Properties of the name normalization\<close>

lemma splitOn_not_Nil: "splitOn sep s \<noteq> []"
  by (induction s) (auto split: list.splits)

lemma join_Cons_nonempty: "ws \<noteq> [] \<Longrightarrow> join sep (w # ws) = w @ sep @ join sep ws"
  by (cases ws) auto

lemma join_splitOn: "join [sep] (splitOn sep s) = s"
proof (induction s)
  case Nil
  then show ?case by simp
next
  case (Cons c cs)
  show ?case
  proof (cases "c = sep")
    case True
    then show ?thesis using Cons by (simp add: join_Cons_nonempty splitOn_not_Nil)
  next
    case False
    obtain w ws where split: "splitOn sep cs = w # ws"
      using splitOn_not_Nil[of sep cs] by (cases "splitOn sep cs") auto
    have "join [sep] ((c # w) # ws) = c # join [sep] (w # ws)"
      by (cases ws) auto
    then show ?thesis using False Cons split by simp
  qed
qed

lemma splitOn_segments: "seg \<in> set (splitOn sep s) \<Longrightarrow> sep \<notin> set seg"
  by (induction s arbitrary: seg) (auto split: if_splits list.splits)

text \<open>
  C3. The public name of a tool definition is obtained from the catalog identifier by the
  stated rule: the identifier is split at its underscores (the segments contain no
  underscore and give the identifier back when joined with underscores), the first
  segment is lower-cased, the first letter of every later segment is put in upper case
  with the rest of the segment unchanged, and the results are concatenated. The two
  identifiers of the end-to-end scenarios give \<^verbatim>\<open>activeUserProfiles\<close> and
  \<^verbatim>\<open>addNoteToUser\<close>.
\<close>

theorem toolName_follows_derivation_rule:
  "toolName (transformToToolDefinition details) =
     toLowerCase (hd (splitOn CHR ''_'' (object_name details)))
       @ concat (map capitalize (tl (splitOn CHR ''_'' (object_name details))))
   \<and> join ''_'' (splitOn CHR ''_'' (object_name details)) = object_name details
   \<and> (\<forall>seg \<in> set (splitOn CHR ''_'' (object_name details)). CHR ''_'' \<notin> set seg)
   \<and> capitalize (c # cs) = upper_char c # cs
   \<and> camelCase ''active_user_profiles'' = ''activeUserProfiles''
   \<and> camelCase ''add_note_to_user'' = ''addNoteToUser''"
proof -
  have "toolName (transformToToolDefinition details) = camelCase (object_name details)"
    by (simp add: transformToToolDefinition_def Let_def)
  moreover have "camelCase s = toLowerCase (hd (splitOn CHR ''_'' s))
                   @ concat (map capitalize (tl (splitOn CHR ''_'' s)))" for s
    using splitOn_not_Nil[of "CHR ''_''" s]
    by (cases "splitOn CHR ''_'' s") (simp_all add: camelCase_def)
  moreover have "camelCase ''active_user_profiles'' = ''activeUserProfiles''"
    by code_simp
  moreover have "camelCase ''add_note_to_user'' = ''addNoteToUser''"
    by code_simp
  moreover have "capitalize (c # cs) = upper_char c # cs"
    by (simp add: capitalize_def)
  ultimately show ?thesis
    using join_splitOn[of "CHR ''_''" "object_name details"] splitOn_segments
    by auto
qed

theorem toolName_follows_derivation_rule_witness:
  "toolName (transformToToolDefinition
     \<lparr>object_name = ''get_user_by_id'', object_type = VIEW, comment = None,
      raw_columns = Some [], raw_parameters = None, return_type = None,
      returns_set = None\<rparr>) = ''getUserById''
   \<and> splitOn CHR ''_'' ''get_user_by_id'' = [''get'', ''user'', ''by'', ''id'']"
proof -
  have split: "splitOn CHR ''_'' ''get_user_by_id'' = [''get'', ''user'', ''by'', ''id'']"
    by code_simp
  have parts: "toLowerCase ''get'' = ''get''" "upper_char CHR ''u'' = CHR ''U''"
    "upper_char CHR ''b'' = CHR ''B''" "upper_char CHR ''i'' = CHR ''I''"
    by code_simp+
  show ?thesis
    using toolName_follows_derivation_rule
      [of "\<lparr>object_name = ''get_user_by_id'', object_type = VIEW, comment = None,
            raw_columns = Some [], raw_parameters = None, return_type = None,
            returns_set = None\<rparr>"]
    by (simp add: split parts)
qed

section \<open>Properties of the Invoker\<close>

lemma rpcParamsLoop_no_args: "rpcParamsLoop ps None rpcParams = rpcParams"
  by (induction ps arbitrary: rpcParams) auto

lemma rpcParamsLoop_other_key:
  "k \<notin> name ` set ps \<Longrightarrow> rpcParamsLoop ps args rpcParams k = rpcParams k"
  by (induction ps arbitrary: rpcParams)
     (auto simp: assignProperty_def split: option.splits)

lemma rpcParamsLoop_origin:
  "rpcParamsLoop ps (Some a) rpcParams k = Some v
    \<Longrightarrow> rpcParams k = Some v \<or> (\<exists>p \<in> set ps. name p = k \<and> a (toolParamName p) = Some v)"
proof (induction ps arbitrary: rpcParams)
  case Nil
  then show ?case by simp
next
  case (Cons p ps)
  show ?case
  proof (cases "a (toolParamName p)")
    case None
    with Cons.prems have "rpcParamsLoop ps (Some a) rpcParams k = Some v" by simp
    from Cons.IH[OF this] show ?thesis by auto
  next
    case (Some w)
    with Cons.prems
    have "rpcParamsLoop ps (Some a) (assignProperty rpcParams (name p) w) k = Some v" by simp
    from Cons.IH[OF this] show ?thesis
      using Some by (auto simp: assignProperty_def split: if_splits)
  qed
qed

lemma rpcParamsLoop_forwarded:
  "distinct (map name ps) \<Longrightarrow> p \<in> set ps \<Longrightarrow> a (toolParamName p) = Some v
    \<Longrightarrow> name p \<noteq> ''__proto__''
    \<Longrightarrow> rpcParamsLoop ps (Some a) rpcParams (name p) = Some v"
proof (induction ps arbitrary: rpcParams)
  case Nil
  then show ?case by simp
next
  case (Cons q ps)
  show ?case
  proof (cases "p = q")
    case True
    with Cons.prems have "name p \<notin> name ` set ps" by auto
    then show ?thesis
      using True Cons.prems
      by (simp add: rpcParamsLoop_other_key assignProperty_def)
  next
    case False
    with Cons.prems have "p \<in> set ps" "distinct (map name ps)" by auto
    then show ?thesis using Cons.IH Cons.prems(3,4) by simp
  qed
qed

text \<open>
  C9. The argument record of the database call of a FUNCTION tool is built from the
  declared parameters and the caller's argument map alone. A catalog name is in the record
  only if it is the name of a declared parameter whose public name is an own property of
  the argument map, and then with the value supplied under that public name; a catalog
  name all of whose parameters are absent from the argument map is no key of the record;
  without an argument map the record is empty. Conversely, when the catalog names are
  distinct, every supplied parameter is forwarded under its catalog name.
\<close>

theorem absent_arguments_are_omitted:
  "(rpcParamsLoop ps (Some a) Map.empty k = Some v
      \<longrightarrow> (\<exists>p \<in> set ps. name p = k \<and> a (toolParamName p) = Some v))
   \<and> ((\<forall>p \<in> set ps. name p = k \<longrightarrow> toolParamName p \<notin> dom a)
      \<longrightarrow> k \<notin> dom (rpcParamsLoop ps (Some a) Map.empty))
   \<and> rpcParamsLoop ps None Map.empty = Map.empty
   \<and> (distinct (map name ps) \<and> p \<in> set ps \<and> a (toolParamName p) = Some v
        \<and> name p \<noteq> ''__proto__''
      \<longrightarrow> rpcParamsLoop ps (Some a) Map.empty (name p) = Some v)
   \<and> (toolType definition = FUNCTION \<longrightarrow>
        handlerTry numberToString supabase definition args =
          (case callRpc supabase (pgName definition)
                  (rpcParamsLoop (parameters definition) args Map.empty) of
             (lg, Inl e) \<Rightarrow> (lg, Inl e)
           | (lg, Inr rawResult) \<Rightarrow>
               if rawResult = JUndefined \<or> rawResult = JNull
               then (lg, Inr (Some (noContentText (toolName definition))))
               else (lg, JSON_stringify numberToString rawResult)))"
proof -
  have origin: "rpcParamsLoop ps (Some a) Map.empty k = Some v
      \<longrightarrow> (\<exists>p \<in> set ps. name p = k \<and> a (toolParamName p) = Some v)"
    using rpcParamsLoop_origin[of ps a Map.empty k v] by simp
  have omitted: "(\<forall>p \<in> set ps. name p = k \<longrightarrow> toolParamName p \<notin> dom a)
      \<longrightarrow> k \<notin> dom (rpcParamsLoop ps (Some a) Map.empty)"
  proof
    assume absent: "\<forall>p \<in> set ps. name p = k \<longrightarrow> toolParamName p \<notin> dom a"
    show "k \<notin> dom (rpcParamsLoop ps (Some a) Map.empty)"
    proof
      assume "k \<in> dom (rpcParamsLoop ps (Some a) Map.empty)"
      then obtain w where "rpcParamsLoop ps (Some a) Map.empty k = Some w" by auto
      from rpcParamsLoop_origin[OF this] obtain p
        where "p \<in> set ps" "name p = k" "a (toolParamName p) = Some w" by auto
      with absent show False by auto
    qed
  qed
  show ?thesis
    using origin omitted rpcParamsLoop_forwarded[of ps p a v Map.empty]
    by (simp add: rpcParamsLoop_no_args handlerTry_def)
qed

theorem absent_arguments_are_omitted_witness:
  "rpcParamsLoop
     [\<lparr>name = ''p_user_id'', toolParamName = ''pUserId'', pgType = ''uuid'',
        param_description = None\<rparr>,
      \<lparr>name = ''p_note_text'', toolParamName = ''pNoteText'', pgType = ''text'',
        param_description = None\<rparr>]
     (Some [''pUserId'' \<mapsto> JStr ''u1'']) Map.empty ''p_user_id'' = Some (JStr ''u1'')
   \<and> ''p_note_text'' \<notin> dom (rpcParamsLoop
     [\<lparr>name = ''p_user_id'', toolParamName = ''pUserId'', pgType = ''uuid'',
        param_description = None\<rparr>,
      \<lparr>name = ''p_note_text'', toolParamName = ''pNoteText'', pgType = ''text'',
        param_description = None\<rparr>]
     (Some [''pUserId'' \<mapsto> JStr ''u1'']) Map.empty)"
proof -
  let ?p1 = "\<lparr>name = ''p_user_id'', toolParamName = ''pUserId'', pgType = ''uuid'',
               param_description = None\<rparr>"
  let ?p2 = "\<lparr>name = ''p_note_text'', toolParamName = ''pNoteText'', pgType = ''text'',
               param_description = None\<rparr>"
  let ?a = "[''pUserId'' \<mapsto> JStr ''u1'']"
  have absent: "\<forall>p \<in> set [?p1, ?p2]. name p = ''p_note_text'' \<longrightarrow> toolParamName p \<notin> dom ?a"
    by simp
  have present: "distinct (map name [?p1, ?p2]) \<and> ?p1 \<in> set [?p1, ?p2]
                   \<and> ?a (toolParamName ?p1) = Some (JStr ''u1'') \<and> name ?p1 \<noteq> ''__proto__''"
    by simp
  have omitted: "''p_note_text'' \<notin> dom (rpcParamsLoop [?p1, ?p2] (Some ?a) Map.empty)"
    using absent_arguments_are_omitted[of "[?p1, ?p2]" ?a "''p_note_text''"] absent
    by blast
  have forwarded: "rpcParamsLoop [?p1, ?p2] (Some ?a) Map.empty (name ?p1) = Some (JStr ''u1'')"
    using absent_arguments_are_omitted[of "[?p1, ?p2]" ?a _ "JStr ''u1''" ?p1] present
    by blast
  show ?thesis using omitted forwarded by simp
qed

section \<open>Properties of the tool registration\<close>

lemma registerTools_lookup:
  "fst (registerTools numberToString supabase defs server lg) n =
     (case server n of
        Some t \<Rightarrow> Some t
      | None \<Rightarrow>
          map_option (\<lambda>d. toolOf numberToString supabase d (fst (inputSchemaShapeOf d)))
            (find (\<lambda>d. toolName d = n) defs))"
proof (induction defs arbitrary: server lg)
  case Nil
  then show ?case by (simp split: option.splits)
next
  case (Cons d defs)
  obtain shape lg' where shape: "inputSchemaShapeOf d = (shape, lg')"
    by (cases "inputSchemaShapeOf d")
  show ?case
  proof (cases "server (toolName d)")
    case None
    then show ?thesis
      using shape Cons.IH by (auto simp: server_tool_def split: option.splits)
  next
    case (Some t)
    then show ?thesis
      using shape Cons.IH by (auto simp: server_tool_def split: option.splits)
  qed
qed

lemma registerTools_log_mono:
  "set lg \<subseteq> set (snd (registerTools numberToString supabase defs server lg))"
proof (induction defs arbitrary: server lg)
  case Nil
  then show ?case by simp
next
  case (Cons d defs)
  obtain shape lg' where shape: "inputSchemaShapeOf d = (shape, lg')"
    by (cases "inputSchemaShapeOf d")
  show ?case
  proof (cases "server (toolName d)")
    case None
    then show ?thesis
      using shape Cons.IH[of "lg @ lg'"] by (auto simp: server_tool_def)
  next
    case (Some t)
    then show ?thesis
      using shape Cons.IH[of "lg @ lg' @ [(ERROR, registrationError (toolName d))]" server]
      by (auto simp: server_tool_def)
  qed
qed

lemma registerTools_rejects:
  "toolName d \<in> dom server \<or> toolName d \<in> toolName ` set xs
    \<Longrightarrow> (ERROR, registrationError (toolName d))
          \<in> set (snd (registerTools numberToString supabase (xs @ d # ys) server lg))"
proof (induction xs arbitrary: server lg)
  case Nil
  then obtain t where t: "server (toolName d) = Some t" by auto
  obtain shape lg' where shape: "inputSchemaShapeOf d = (shape, lg')"
    by (cases "inputSchemaShapeOf d")
  have "(ERROR, registrationError (toolName d))
          \<in> set (lg @ lg' @ [(ERROR, registrationError (toolName d))])" by simp
  then show ?case
    using t shape
      registerTools_log_mono[of "lg @ lg' @ [(ERROR, registrationError (toolName d))]"
        numberToString supabase ys server]
    by (auto simp: server_tool_def)
next
  case (Cons x xs)
  obtain shape lg' where shape: "inputSchemaShapeOf x = (shape, lg')"
    by (cases "inputSchemaShapeOf x")
  show ?case
  proof (cases "server (toolName x)")
    case None
    let ?server = "server(toolName x \<mapsto> toolOf numberToString supabase x shape)"
    have step: "registerTools numberToString supabase ((x # xs) @ d # ys) server lg
                  = registerTools numberToString supabase (xs @ d # ys) ?server (lg @ lg')"
      using None shape by (simp add: server_tool_def)
    from Cons.prems have "toolName d \<in> dom ?server \<or> toolName d \<in> toolName ` set xs"
      by auto
    from Cons.IH[OF this, of "lg @ lg'"] show ?thesis
      by (simp only: step)
  next
    case (Some t)
    have step: "registerTools numberToString supabase ((x # xs) @ d # ys) server lg
                  = registerTools numberToString supabase (xs @ d # ys) server
                      (lg @ lg' @ [(ERROR, registrationError (toolName x))])"
      using Some shape by (simp add: server_tool_def)
    from Cons.prems Some have "toolName d \<in> dom server \<or> toolName d \<in> toolName ` set xs"
      by auto
    from Cons.IH[OF this, of "lg @ lg' @ [(ERROR, registrationError (toolName x))]"]
    show ?thesis
      by (simp only: step)
  qed
qed

text \<open>
  C5. Let a list of tool definitions be registered on a server without tools, and let a
  definition in it have the public name of an earlier one. Then the name stays bound to
  what was registered for the earliest definition of that name, whose handler is the
  one that is called; the failure of the later registration is reported through
  \<^verbatim>\<open>console.error\<close>; and every public name of the list is registered.
\<close>

theorem later_duplicate_is_rejected:
  assumes "find (\<lambda>e. toolName e = toolName d) xs = Some first"
  shows "fst (registerTools numberToString supabase (xs @ d # ys) Map.empty []) (toolName d)
           = Some (toolOf numberToString supabase first (fst (inputSchemaShapeOf first)))
         \<and> rt_handler (toolOf numberToString supabase first (fst (inputSchemaShapeOf first)))
           = handler numberToString supabase first
         \<and> (ERROR, registrationError (toolName d))
             \<in> set (snd (registerTools numberToString supabase (xs @ d # ys) Map.empty []))
         \<and> dom (fst (registerTools numberToString supabase (xs @ d # ys) Map.empty []))
           = toolName ` set (xs @ d # ys)"
proof -
  from assms have earlier: "toolName d \<in> toolName ` set xs"
    by (auto simp: find_Some_iff) (metis image_eqI nth_mem)
  have found: "find (\<lambda>e. toolName e = toolName d) (xs @ d # ys) = Some first"
    using assms by (induction xs) (auto split: if_splits)
  have bound: "fst (registerTools numberToString supabase (xs @ d # ys) Map.empty [])
                 (toolName d)
               = Some (toolOf numberToString supabase first (fst (inputSchemaShapeOf first)))"
    by (simp add: registerTools_lookup found)
  have names: "dom (fst (registerTools numberToString supabase (xs @ d # ys) Map.empty []))
                 = toolName ` set (xs @ d # ys)"
  proof -
    have "(find (\<lambda>e. toolName e = n) defs \<noteq> None) = (n \<in> toolName ` set defs)"
      for n and defs :: "IntrospectedToolDefinition list"
      by (induction defs) auto
    then show ?thesis
      by (auto simp: registerTools_lookup dom_def simp del: set_append)
  qed
  show ?thesis
    using bound names registerTools_rejects[of d Map.empty xs numberToString supabase ys "[]"]
      earlier
    by (simp add: toolOf_def)
qed

theorem later_duplicate_is_rejected_witness:
  "fst (registerTools wholeNumberToString scenarioClient
          [notesView, pingFunction, notesFunction] Map.empty []) ''userNotes''
     = Some (toolOf wholeNumberToString scenarioClient notesView Map.empty)
   \<and> (ERROR, ''Failed to define or register tool userNotes:'')
       \<in> set (snd (registerTools wholeNumberToString scenarioClient
                      [notesView, pingFunction, notesFunction] Map.empty []))"
proof -
  have found: "find (\<lambda>e. toolName e = toolName notesFunction) [notesView, pingFunction]
                 = Some notesView"
    by (simp add: notesView_def notesFunction_def)
  have shape: "fst (inputSchemaShapeOf notesView) = Map.empty"
    by (simp add: inputSchemaShapeOf_def notesView_def)
  have name: "toolName notesFunction = ''userNotes''"
    by (simp add: notesFunction_def)
  have message: "registrationError ''userNotes'' = ''Failed to define or register tool userNotes:''"
    by (simp add: registrationError_def)
  from later_duplicate_is_rejected[OF found, of wholeNumberToString scenarioClient "[]"]
  show ?thesis
    by (simp add: shape name message)
qed

section \<open>Properties of the result encoding\<close>

lemma digits_value: "decimal_nat (digits n) = n"
proof (induction n rule: digits.induct)
  case (1 n)
  have digit: "digit_value (digit_char m) = m" if "m < 10" for m
  proof -
    from that have "m \<in> {0, 1, 2, 3, 4, 5, 6, 7, 8, 9}" by auto
    then show ?thesis
      by (auto simp: digit_value_def digit_char_def)
  qed
  show ?case
  proof (cases "n < 10")
    case True
    then show ?thesis
      by (subst digits.simps) (simp add: decimal_nat_def digit)
  next
    case False
    have "decimal_nat (digits (n div 10) @ [digit_char (n mod 10)])
            = 10 * decimal_nat (digits (n div 10)) + digit_value (digit_char (n mod 10))"
      by (simp add: decimal_nat_def)
    also have "\<dots> = 10 * (n div 10) + n mod 10"
      using 1 False by (simp add: digit)
    finally show ?thesis
      using False by (subst digits.simps) simp
  qed
qed

lemma digits_no_minus: "CHR ''-'' \<notin> set (digits n)"
proof (induction n rule: digits.induct)
  case (1 n)
  have digit: "digit_char m \<noteq> CHR ''-''" if "m < 10" for m
  proof -
    from that have "m \<in> {0, 1, 2, 3, 4, 5, 6, 7, 8, 9}" by auto
    then show ?thesis by (auto simp: digit_char_def)
  qed
  show ?case
  proof (cases "n < 10")
    case True
    then show ?thesis using digit[of n] by (subst digits.simps) auto
  next
    case False
    then show ?thesis using 1 digit[of "n mod 10"] by (subst digits.simps) auto
  qed
qed

lemma digits_not_Nil: "digits n \<noteq> []"
  by (subst digits.simps) simp

lemma bigint_toString_exact: "decimal_value (bigint_toString i) = i"
proof (cases "i < 0")
  case True
  then show ?thesis by (simp add: bigint_toString_def decimal_value_def digits_value)
next
  case False
  obtain c cs where ds: "digits (nat i) = c # cs"
    using digits_not_Nil[of "nat i"] by (cases "digits (nat i)") auto
  have "c \<noteq> CHR ''-''"
    using digits_no_minus[of "nat i"] ds by auto
  moreover have "decimal_nat (c # cs) = nat i"
    using digits_value[of "nat i"] ds by simp
  ultimately show ?thesis
    using False ds by (simp add: bigint_toString_def decimal_value_def)
qed

text \<open>Serializing with the replacer is serializing, without it, the value in which every
  bigint has been replaced by its decimal string.\<close>

lemma SerializeJSONProperty_replacer:
  "SerializeJSONProperty True numberToString indent v
     = SerializeJSONProperty False numberToString indent (bigintsAsStrings v)"
proof (induction v arbitrary: indent)
  case (JArr xs)
  have elements: "map (SerializeJSONProperty True numberToString (indent @ gap)) xs
          = map (\<lambda>x. SerializeJSONProperty False numberToString (indent @ gap)
                        (bigintsAsStrings x)) xs"
    using JArr by (simp cong: map_cong)
  show ?case
    by (simp add: SerializeJSONProperty.simps[of _ _ _ "JArr _"] replacer_def comp_def
        elements)
next
  case (JObj kvs)
  have members: "map (\<lambda>kv. SerializeJSONProperty True numberToString (indent @ gap) (snd kv)) kvs
          = map (\<lambda>kv. SerializeJSONProperty False numberToString (indent @ gap)
                         (bigintsAsStrings (snd kv))) kvs"
  proof (rule map_cong[OF refl])
    fix kv assume member: "kv \<in> set kvs"
    have "snd kv \<in> Basic_BNFs.snds kv" by (cases kv) simp
    from JObj[OF member this]
    show "SerializeJSONProperty True numberToString (indent @ gap) (snd kv)
                 = SerializeJSONProperty False numberToString (indent @ gap)
                     (bigintsAsStrings (snd kv))" .
  qed
  have keys: "map fst (map (\<lambda>kv. (fst kv, bigintsAsStrings (snd kv))) kvs) = map fst kvs"
    by (induction kvs) simp_all
  have mapped: "map (\<lambda>kv. SerializeJSONProperty False numberToString (indent @ gap) (snd kv))
                  (map (\<lambda>kv. (fst kv, bigintsAsStrings (snd kv))) kvs)
                = map (\<lambda>kv. SerializeJSONProperty False numberToString (indent @ gap)
                               (bigintsAsStrings (snd kv))) kvs"
    by (induction kvs) simp_all
  have with_replacer: "SerializeJSONProperty True numberToString indent (JObj kvs) =
      (case collect (map (\<lambda>kv. SerializeJSONProperty True numberToString
                                 (indent @ gap) (snd kv)) kvs) of
         Inl e \<Rightarrow> Inl e
       | Inr strs \<Rightarrow>
           Inr (Some (finishObject indent
             (List.map_filter
                (\<lambda>(k, strP). map_option (\<lambda>t. QuoteJSONString k @ '': '' @ t) strP)
                (zip (map fst kvs) strs)))))"
    by (subst SerializeJSONProperty.simps) (simp add: replacer_def)
  have without: "SerializeJSONProperty False numberToString indent
                   (JObj (map (\<lambda>kv. (fst kv, bigintsAsStrings (snd kv))) kvs)) =
      (case collect (map (\<lambda>kv. SerializeJSONProperty False numberToString (indent @ gap)
                                 (snd kv))
                      (map (\<lambda>kv. (fst kv, bigintsAsStrings (snd kv))) kvs)) of
         Inl e \<Rightarrow> Inl e
       | Inr strs \<Rightarrow>
           Inr (Some (finishObject indent
             (List.map_filter
                (\<lambda>(k, strP). map_option (\<lambda>t. QuoteJSONString k @ '': '' @ t) strP)
                (zip (map fst (map (\<lambda>kv. (fst kv, bigintsAsStrings (snd kv))) kvs))
                     strs)))))"
    by (subst SerializeJSONProperty.simps) (simp del: map_map)
  show ?case
    by (simp only: bigintsAsStrings.simps with_replacer without mapped members keys)
qed (simp_all add: SerializeJSONProperty.simps replacer_def)

lemma collect_all_Inr:
  "(\<And>r. r \<in> set rs \<Longrightarrow> \<exists>x. r = Inr x) \<Longrightarrow> \<exists>xs. collect rs = Inr xs"
proof (induction rs)
  case Nil
  then show ?case by simp
next
  case (Cons r rs)
  then obtain x where "r = Inr x" by auto
  moreover from Cons obtain xs where "collect rs = Inr xs" by auto
  ultimately show ?case by simp
qed

text \<open>With the replacer, no bigint reaches the serialization: nothing is thrown, and a
  value other than \<^verbatim>\<open>undefined\<close> gives a text.\<close>

lemma SerializeJSONProperty_returns:
  "\<exists>t. SerializeJSONProperty True numberToString indent v = Inr t
       \<and> (v \<noteq> JUndefined \<longrightarrow> t \<noteq> None)"
proof (induction v arbitrary: indent)
  case (JArr xs)
  have "\<exists>strs. collect (map (SerializeJSONProperty True numberToString (indent @ gap)) xs)
                 = Inr strs"
    using JArr by (intro collect_all_Inr) auto
  then show ?case
    by (auto simp: SerializeJSONProperty.simps[of _ _ _ "JArr _"] replacer_def)
next
  case (JObj kvs)
  have "\<exists>strs. collect (map (\<lambda>kv. SerializeJSONProperty True numberToString (indent @ gap)
                                    (snd kv)) kvs) = Inr strs"
  proof (intro collect_all_Inr)
    fix r
    assume "r \<in> set (map (\<lambda>kv. SerializeJSONProperty True numberToString (indent @ gap)
                                 (snd kv)) kvs)"
    then obtain kv where member: "kv \<in> set kvs"
      and r: "r = SerializeJSONProperty True numberToString (indent @ gap) (snd kv)" by auto
    have "snd kv \<in> Basic_BNFs.snds kv" by (cases kv) simp
    from JObj[OF member this, of "indent @ gap"] show "\<exists>x. r = Inr x"
      using r by auto
  qed
  then show ?case
    by (auto simp: SerializeJSONProperty.simps[of _ _ _ "JObj _"] replacer_def)
qed (simp_all add: SerializeJSONProperty.simps replacer_def)

lemma JSON_stringify_text:
  "rawResult \<noteq> JUndefined \<Longrightarrow> \<exists>str. JSON_stringify numberToString rawResult = Inr (Some str)"
  using SerializeJSONProperty_returns[of numberToString "[]" rawResult]
  by (auto simp: JSON_stringify_def)

text \<open>
  C7. Serializing a raw result with the handler's replacer gives the text that the plain
  serialization gives for the value in which every bigint, wherever it occurs, has been
  replaced by the string of its decimal digits; the serialization never throws; the
  decimal string read back as a numeral is the bigint itself, so that no bigint, of
  whatever size, loses precision; and when the database call returns a raw result other
  than \<^verbatim>\<open>null\<close> and \<^verbatim>\<open>undefined\<close>, the handler returns that text in a success payload.
\<close>

theorem bigints_encoded_as_decimal_strings:
  "JSON_stringify numberToString rawResult
     = SerializeJSONProperty False numberToString [] (bigintsAsStrings rawResult)
   \<and> (\<exists>t. JSON_stringify numberToString rawResult = Inr t)
   \<and> bigintsAsStrings (JBigInt i) = JStr (bigint_toString i)
   \<and> decimal_value (bigint_toString i) = i
   \<and> (((toolType definition = FUNCTION
          \<and> client_rpc supabase (pgName definition)
                (rpcParamsLoop (parameters definition) args Map.empty) = Response rawResult None)
        \<or> (toolType definition = VIEW
          \<and> client_select supabase (pgName definition) = Response rawResult None))
        \<and> rawResult \<noteq> JNull \<and> rawResult \<noteq> JUndefined
      \<longrightarrow> (\<exists>str. JSON_stringify numberToString rawResult = Inr (Some str)
            \<and> handler numberToString supabase definition args
                = ([], \<lparr>isError = None, content = [TextContent (Some str)]\<rparr>)))"
proof -
  have encoded: "JSON_stringify numberToString rawResult
     = SerializeJSONProperty False numberToString [] (bigintsAsStrings rawResult)"
    by (simp add: JSON_stringify_def SerializeJSONProperty_replacer)
  have returns: "\<exists>t. JSON_stringify numberToString rawResult = Inr t"
    using SerializeJSONProperty_returns[of numberToString "[]" rawResult]
    by (auto simp: JSON_stringify_def)
  have payload: "\<exists>str. JSON_stringify numberToString rawResult = Inr (Some str)
            \<and> handler numberToString supabase definition args
                = ([], \<lparr>isError = None, content = [TextContent (Some str)]\<rparr>)"
    if call: "(toolType definition = FUNCTION
          \<and> client_rpc supabase (pgName definition)
                (rpcParamsLoop (parameters definition) args Map.empty) = Response rawResult None)
        \<or> (toolType definition = VIEW
          \<and> client_select supabase (pgName definition) = Response rawResult None)"
      and present: "rawResult \<noteq> JNull" "rawResult \<noteq> JUndefined"
  proof -
    from JSON_stringify_text[OF present(2)] obtain str
      where str: "JSON_stringify numberToString rawResult = Inr (Some str)" by blast
    have "handlerTry numberToString supabase definition args = ([], Inr (Some str))"
      using call present str
      by (auto simp: handlerTry_def callRpc_def selectFromView_def)
    then show ?thesis
      using str by (simp add: handler_def)
  qed
  show ?thesis
    using encoded returns payload by (simp add: bigint_toString_exact)
qed

theorem bigints_encoded_as_decimal_strings_witness:
  "handler wholeNumberToString bigintClient pingFunction None
     = ([], \<lparr>isError = None,
              content = [TextContent (Some (''{'' @ [CHR 0x0A] @ ''  '' @ [CHR 0x22] @ ''id''
                @ [CHR 0x22] @ '': '' @ [CHR 0x22] @ ''9007199254740993'' @ [CHR 0x22]
                @ [CHR 0x0A] @ ''}''))]\<rparr>)
   \<and> decimal_value ''9007199254740993'' = 9007199254740993"
proof -
  let ?raw = "JObj [(''id'', JBigInt 9007199254740993)]"
  have call: "toolType pingFunction = FUNCTION
          \<and> client_rpc bigintClient (pgName pingFunction)
                (rpcParamsLoop (parameters pingFunction) None Map.empty) = Response ?raw None"
    by (simp add: pingFunction_def bigintClient_def)
  have digits: "bigint_toString 9007199254740993 = ''9007199254740993''"
    by (simp add: bigint_toString_def digits.simps digit_char_def)
  have quoted: "QuoteJSONString ''9007199254740993''
                  = [CHR 0x22] @ ''9007199254740993'' @ [CHR 0x22]"
    "QuoteJSONString ''id'' = [CHR 0x22] @ ''id'' @ [CHR 0x22]"
    by (simp_all add: QuoteJSONString_def quoteChar_def)
  have serialized: "JSON_stringify wholeNumberToString ?raw
                = Inr (Some (''{'' @ [CHR 0x0A] @ ''  '' @ [CHR 0x22] @ ''id''
                @ [CHR 0x22] @ '': '' @ [CHR 0x22] @ ''9007199254740993'' @ [CHR 0x22]
                @ [CHR 0x0A] @ ''}''))"
    by (simp add: JSON_stringify_def SerializeJSONProperty.simps replacer_def digits quoted
        finishObject_def gap_def List.map_filter_def)
  from bigints_encoded_as_decimal_strings
         [of wholeNumberToString ?raw 9007199254740993 pingFunction bigintClient None]
  show ?thesis
    using call by (simp add: serialized digits)
qed

text \<open>
  C8, as the code has it. When the call of a FUNCTION tool succeeds with \<^verbatim>\<open>null\<close> or
  \<^verbatim>\<open>undefined\<close>, the handler returns a success payload whose text says that the tool
  returned no content. An empty array is serialized like any other value: the text of
  the success payload is \<^verbatim>\<open>[]\<close>. The read of a VIEW tool replaces absent data by the
  empty array, so that its payload is \<^verbatim>\<open>[]\<close> in all three cases. None of these is an
  error payload, and nothing is reported.
\<close>

theorem absent_result_is_success:
  assumes "toolType definition = FUNCTION \<longrightarrow>
             client_rpc supabase (pgName definition)
               (rpcParamsLoop (parameters definition) args Map.empty) = Response raw None"
    and "toolType definition = VIEW \<longrightarrow>
             client_select supabase (pgName definition) = Response raw None"
    and "raw = JNull \<or> raw = JUndefined \<or> raw = JArr []"
  shows "handler numberToString supabase definition args =
           ([], \<lparr>isError = None,
                  content = [TextContent (Some
                    (if toolType definition = FUNCTION \<and> raw \<noteq> JArr []
                     then noContentText (toolName definition) else ''[]''))]\<rparr>)"
proof -
  have empty: "JSON_stringify numberToString (JArr []) = Inr (Some ''[]'')"
    by (simp add: JSON_stringify_def SerializeJSONProperty.simps replacer_def finishArray_def)
  show ?thesis
  proof (cases "toolType definition")
    case VIEW
    with assms have "selectFromView supabase (pgName definition) = ([], Inr (JArr []))"
      by (auto simp: selectFromView_def)
    then show ?thesis
      using VIEW empty by (simp add: handler_def handlerTry_def)
  next
    case FUNCTION
    with assms have "callRpc supabase (pgName definition)
                       (rpcParamsLoop (parameters definition) args Map.empty) = ([], Inr raw)"
      by (simp add: callRpc_def)
    then show ?thesis
      using FUNCTION empty assms(3) by (auto simp: handler_def handlerTry_def)
  qed
qed

theorem absent_result_is_success_witness:
  "handler wholeNumberToString bareClient pingFunction None
     = ([], \<lparr>isError = None,
              content = [TextContent
                (Some ''Tool ping executed successfully, returning no content.'')]\<rparr>)"
proof -
  have call: "toolType pingFunction = FUNCTION \<longrightarrow>
                client_rpc bareClient (pgName pingFunction)
                  (rpcParamsLoop (parameters pingFunction) None Map.empty) = Response JNull None"
    by (simp add: pingFunction_def bareClient_def catalogClient_def)
  have no_view: "toolType pingFunction = VIEW \<longrightarrow>
                   client_select bareClient (pgName pingFunction) = Response JNull None"
    by (simp add: pingFunction_def)
  have marker: "noContentText (toolName pingFunction)
                  = ''Tool ping executed successfully, returning no content.''"
    by (simp add: noContentText_def pingFunction_def)
  from absent_result_is_success[OF call no_view, of wholeNumberToString]
  show ?thesis
    by (simp add: marker) (simp add: pingFunction_def)
qed

text \<open>
  C8, as stated, fails: the call of the function \<^verbatim>\<open>user__notes\<close> succeeds with an empty
  set of rows, and the text of the payload is \<^verbatim>\<open>[]\<close>, not the text that announces that
  there is no content.
\<close>

theorem empty_result_counterexample:
  "client_rpc emptySetClient (pgName notesFunction)
     (rpcParamsLoop (parameters notesFunction) (Some [''pUserId'' \<mapsto> JStr ''u1'']) Map.empty)
     = Response (JArr []) None
   \<and> handler wholeNumberToString emptySetClient notesFunction
       (Some [''pUserId'' \<mapsto> JStr ''u1''])
     = ([], \<lparr>isError = None, content = [TextContent (Some ''[]'')]\<rparr>)
   \<and> noContentText (toolName notesFunction)
     = ''Tool userNotes executed successfully, returning no content.''"
  by code_simp

end
